theory Spec2Isabelle
  imports Main "HOL-Library.AList" "HOL-Library.Multiset" "HOL-Library.Sublist"
begin

section \<open>Python values used by the launcher\<close>

text \<open>
  The launcher (\<^verbatim>\<open>doom_v2.py\<close>) is a Python program. A Python string is modelled as
  the \<^typ>\<open>string\<close> of the bytes of its UTF-8 encoding: a character below 128 is an
  ASCII character, and the tests for a substring, a suffix, a dot or a separator read
  the same on the bytes as on the characters.
\<close>

definition is_ascii :: "char \<Rightarrow> bool" where
  "is_ascii c = (of_char c < (128::nat))"

text \<open>What \<^verbatim>\<open>str.lower\<close> does to an ASCII character.\<close>

definition lower_char :: "char \<Rightarrow> char" where
  "lower_char c =
     (case map_of (zip ''ABCDEFGHIJKLMNOPQRSTUVWXYZ'' ''abcdefghijklmnopqrstuvwxyz'') c of
        Some d \<Rightarrow> d
      | None \<Rightarrow> c)"

text \<open>\<^verbatim>\<open>s.startswith(p)\<close>\<close>

fun startswith :: "string \<Rightarrow> string \<Rightarrow> bool" where
  "startswith s [] = True"
| "startswith [] (p # ps) = False"
| "startswith (c # cs) (p # ps) = (c = p \<and> startswith cs ps)"

text \<open>\<^verbatim>\<open>s.endswith(suf)\<close>\<close>

definition endswith :: "string \<Rightarrow> string \<Rightarrow> bool" where
  "endswith s suf = startswith (rev s) (rev suf)"

text \<open>\<^verbatim>\<open>sub in s\<close> for strings: \<open>sub\<close> occurs in \<open>s\<close> as a contiguous block.\<close>

fun contains :: "string \<Rightarrow> string \<Rightarrow> bool" where
  "contains sub [] = (sub = [])"
| "contains sub (c # cs) = (startswith (c # cs) sub \<or> contains sub cs)"

text \<open>Truth value of a variable that holds \<^verbatim>\<open>None\<close> or a string.\<close>

fun truthy_str :: "string option \<Rightarrow> bool" where
  "truthy_str None = False"
| "truthy_str (Some s) = (s \<noteq> [])"

subsection \<open>Paths (\<^verbatim>\<open>posixpath\<close>)\<close>

text \<open>
  \<^verbatim>\<open>os.path\<close> is modelled by its POSIX flavour, with \<^verbatim>\<open>/\<close> as the only separator.
\<close>

text \<open>\<^verbatim>\<open>os.path.join(a, b)\<close>\<close>

definition path_join :: "string \<Rightarrow> string \<Rightarrow> string" where
  "path_join a b =
     (if startswith b ''/'' then b
      else if a = [] \<or> endswith a ''/'' then a @ b
      else a @ ''/'' @ b)"

text \<open>\<^verbatim>\<open>os.path.basename(p)\<close>: what follows the last separator.\<close>

definition basename :: "string \<Rightarrow> string" where
  "basename p = rev (takeWhile (\<lambda>c. c \<noteq> CHR ''/'') (rev p))"

text \<open>\<^verbatim>\<open>os.path.dirname(p)\<close>\<close>

definition dirname :: "string \<Rightarrow> string" where
  "dirname p =
     (let head = rev (dropWhile (\<lambda>c. c \<noteq> CHR ''/'') (rev p)) in
      if head \<noteq> [] \<and> \<not> list_all (\<lambda>c. c = CHR ''/'') head
      then rev (dropWhile (\<lambda>c. c = CHR ''/'') (rev head))
      else head)"

text \<open>
  \<^verbatim>\<open>os.path.splitext(p)[1]\<close>: the extension starts at the last dot of the base name,
  unless only dots (or nothing) stand before that dot; then the extension is empty.
\<close>

definition splitext_ext :: "string \<Rightarrow> string" where
  "splitext_ext p =
     (let name = basename p in
      if CHR ''.'' \<in> set name then
        (let stem = rev (tl (dropWhile (\<lambda>c. c \<noteq> CHR ''.'') (rev name)));
             ext = CHR ''.'' # rev (takeWhile (\<lambda>c. c \<noteq> CHR ''.'') (rev name))
         in if list_all (\<lambda>c. c = CHR ''.'') stem then [] else ext)
      else [])"

subsection \<open>JSON values\<close>

text \<open>
  What \<^verbatim>\<open>json.load\<close> returns (numbers are integers here). An object is the list of
  its items, with distinct keys.
\<close>

datatype json =
    JNull
  | JBool bool
  | JNum int
  | JStr string
  | JArr "json list"
  | JObj "(string \<times> json) list"

type_synonym config = "(string \<times> json) list"

datatype exn = AttributeError | TypeError | KeyError | OSError

text \<open>Truth value of a Python object, as \<^verbatim>\<open>if x:\<close> tests it.\<close>

fun truthy :: "json \<Rightarrow> bool" where
  "truthy JNull = False"
| "truthy (JBool b) = b"
| "truthy (JNum n) = (n \<noteq> 0)"
| "truthy (JStr s) = (s \<noteq> [])"
| "truthy (JArr xs) = (xs \<noteq> [])"
| "truthy (JObj kvs) = (kvs \<noteq> [])"

text \<open>\<^verbatim>\<open>x.get(key, default)\<close>: only a dict has the method.\<close>

fun py_get :: "json \<Rightarrow> string \<Rightarrow> json \<Rightarrow> exn + json" where
  "py_get (JObj kvs) key dflt = Inr (case map_of kvs key of Some v \<Rightarrow> v | None \<Rightarrow> dflt)"
| "py_get x key dflt = Inl AttributeError"

text \<open>\<^verbatim>\<open>x[key]\<close> with a string key.\<close>

fun py_item :: "json \<Rightarrow> string \<Rightarrow> exn + json" where
  "py_item (JObj kvs) key = (case map_of kvs key of Some v \<Rightarrow> Inr v | None \<Rightarrow> Inl KeyError)"
| "py_item x key = Inl TypeError"

text \<open>The elements a \<^verbatim>\<open>for\<close> loop over \<open>x\<close> visits.\<close>

fun py_iter :: "json \<Rightarrow> exn + json list" where
  "py_iter (JArr xs) = Inr xs"
| "py_iter (JObj kvs) = Inr (map (\<lambda>kv. JStr (fst kv)) kvs)"
| "py_iter (JStr s) = Inr (map (\<lambda>c. JStr [c]) s)"
| "py_iter x = Inl TypeError"

section \<open>The world outside the program\<close>

subsection \<open>Directory trees\<close>

text \<open>
  A directory holds entries: a file has a name, a permission mode and a content, a
  sub-directory a name and entries of its own. Names are told apart exactly, as a
  case-sensitive file system does.
\<close>

datatype fsnode =
    File string nat string
  | Dir string "fsnode list"

fun node_name :: "fsnode \<Rightarrow> string" where
  "node_name (File n m c) = n"
| "node_name (Dir n cs) = n"

type_synonym walk_entry = "string \<times> string list \<times> (string \<times> nat \<times> string) list"

fun dirnames :: "fsnode list \<Rightarrow> string list" where
  "dirnames [] = []"
| "dirnames (Dir n cs # rest) = n # dirnames rest"
| "dirnames (File n m c # rest) = dirnames rest"

text \<open>The files of a directory: name, mode and content; and name and content alone.\<close>

fun file_entries :: "fsnode list \<Rightarrow> (string \<times> nat \<times> string) list" where
  "file_entries [] = []"
| "file_entries (File n m c # rest) = (n, m, c) # file_entries rest"
| "file_entries (Dir n cs # rest) = file_entries rest"

fun files_of :: "fsnode list \<Rightarrow> (string \<times> string) list" where
  "files_of [] = []"
| "files_of (File n m c # rest) = (n, c) # files_of rest"
| "files_of (Dir n cs # rest) = files_of rest"

text \<open>
  \<^verbatim>\<open>os.walk(top)\<close>, top-down, over a tree whose directories hold their entries in the
  order \<^verbatim>\<open>os.scandir\<close> lists them: a directory's own triple (its path, its
  sub-directories, its files) comes first, then the walks of its sub-directories in
  that order. Each file is listed with its mode and the content that opening it reads.
\<close>

fun walk_node :: "string \<Rightarrow> fsnode \<Rightarrow> walk_entry list" where
  "walk_node parent (File n m c) = []"
| "walk_node parent (Dir n cs) =
     (path_join parent n, dirnames cs, file_entries cs)
       # concat (map (walk_node (path_join parent n)) cs)"

definition walk :: "string \<Rightarrow> fsnode list \<Rightarrow> walk_entry list" where
  "walk tp cs = (tp, dirnames cs, file_entries cs) # concat (map (walk_node tp) cs)"

subsection \<open>Effects and answers\<close>

text \<open>
  Every call that reaches outside the program is recorded as an event, in order. A dialog
  carries its title and the message as the source writes it (a format string is kept
  with its placeholders).
\<close>

datatype event =
    Makedirs string
  | UrlOpen string
  | UrlRetrieve string string
  | ExtractZip string string
  | ExtractTar string string
  | Chmod string nat
  | AskYesNo string string
  | AskSaveAs string
  | ShowError string string
  | ShowInfo string string
  | ShowWarning string string
  | SaveConfig config
  | WriteZip string "(string \<times> string) list"
  | SetStatus string
  | SetLaunchDisabled
  | LogLine string
  | Launch "string list"

datatype 'a outcome = Returned 'a | Raised exn

type_synonym 'a run = "'a outcome \<times> event list"

definition emit :: "event list \<Rightarrow> 'a run \<Rightarrow> 'a run" where
  "emit evs r = (fst r, evs @ snd r)"

text \<open>How the query of the release metadata (lines 63--75) ends.\<close>

datatype fetch_result = Fetched json | FetchHTTPError nat | FetchError

text \<open>How \<^verbatim>\<open>urlretrieve\<close> ends on the network side; \<open>Retrieved\<close> carries the body.\<close>

datatype retrieve_result = Retrieved string | RetrieveHTTPError | RetrieveError

text \<open>
  The answers of the environment.
  \<^item> \<open>unzip\<close> and \<open>untar\<close> stand for \<^verbatim>\<open>extractall\<close>: from an archive's content and
    the directory extracted into, the directory afterwards, or \<open>None\<close> when the library
    raises.
  \<^item> \<open>read_file\<close> gives the mode and the content of a file that can be read.
  \<^item> \<open>unicode_lower\<close> is \<^verbatim>\<open>str.lower\<close> on the strings that are not all ASCII.
  \<^item> \<open>scandir_rank w dir name\<close> is the place the file system gives the entry \<open>name\<close>
    when it lists the directory \<open>dir\<close>.
  \<^item> \<open>zip_create_ok\<close> says whether the output archive can be created and written at
    a path.
  \<^item> \<open>create_mode\<close> is the mode of a file the process creates, \<open>privileged\<close> says
    whether the process may read and write a file whatever its mode, and
    \<open>can_create_in\<close> whether it may create an entry in a directory.
\<close>

record world =
  which :: "string \<Rightarrow> string option"
  askyesno :: bool
  system :: string
  script_dir :: string
  makedirs_ok :: bool
  fetch :: fetch_result
  retrieve :: "string \<Rightarrow> retrieve_result"
  dest_tree :: "fsnode list"
  unzip :: "string \<Rightarrow> fsnode list \<Rightarrow> fsnode list option"
  untar :: "string \<Rightarrow> fsnode list \<Rightarrow> fsnode list option"
  chmod_ok :: "string \<Rightarrow> bool"
  isfile :: "string \<Rightarrow> bool"
  read_file :: "string \<Rightarrow> (nat \<times> string) option"
  asksaveasfilename :: string
  save_config_ok :: bool
  zip_create_ok :: "string \<Rightarrow> bool"
  unicode_lower :: "string \<Rightarrow> string"
  scandir_rank :: "string \<Rightarrow> string \<Rightarrow> nat"
  create_mode :: nat
  privileged :: bool
  can_create_in :: "string \<Rightarrow> bool"

subsection \<open>Library calls that depend on the world\<close>

text \<open>
  \<^verbatim>\<open>s.lower()\<close>: on an all-ASCII string the letters \<^verbatim>\<open>A\<close> to \<^verbatim>\<open>Z\<close> are folded; on any
  other string the Unicode tables decide.
\<close>

definition lower :: "world \<Rightarrow> string \<Rightarrow> string" where
  "lower w s = (if list_all is_ascii s then map lower_char s else unicode_lower w s)"

text \<open>\<^verbatim>\<open>x.lower()\<close>: only a string has the method.\<close>

fun py_lower :: "world \<Rightarrow> json \<Rightarrow> exn + string" where
  "py_lower w (JStr s) = Inr (lower w s)"
| "py_lower w x = Inl AttributeError"

text \<open>
  The tree below \<open>dir\<close> as \<^verbatim>\<open>os.scandir\<close> lists it: the entries of every directory
  in the order of their places.
\<close>

fun listed_node :: "world \<Rightarrow> string \<Rightarrow> fsnode \<Rightarrow> fsnode" where
  "listed_node w parent (File n m c) = File n m c"
| "listed_node w parent (Dir n cs) =
     Dir n (sort_key (\<lambda>e. scandir_rank w (path_join parent n) (node_name e))
              (map (listed_node w (path_join parent n)) cs))"

definition listed :: "world \<Rightarrow> string \<Rightarrow> fsnode list \<Rightarrow> fsnode list" where
  "listed w dir cs =
     sort_key (\<lambda>e. scandir_rank w dir (node_name e)) (map (listed_node w dir) cs)"

text \<open>
  Whether the process may open a file that it owns and that has this mode, for writing
  (owner bit \<^verbatim>\<open>0o200\<close>) and for reading (owner bit \<^verbatim>\<open>0o400\<close>).
\<close>

definition writable :: "world \<Rightarrow> nat \<Rightarrow> bool" where
  "writable w mode = (privileged w \<or> (mode div 128) mod 2 = 1)"

definition readable :: "world \<Rightarrow> nat \<Rightarrow> bool" where
  "readable w mode = (privileged w \<or> (mode div 256) mod 2 = 1)"

text \<open>
  \<^verbatim>\<open>open(name, 'wb')\<close> in a directory, and the write: an existing file keeps its mode
  and gets the content if the process may write to it; a new file is made if the process
  may create one in the directory (\<open>creatable\<close>); a name that denotes a directory cannot
  be opened. \<open>None\<close> when the call raises.
\<close>

fun write_entry ::
  "world \<Rightarrow> bool \<Rightarrow> string \<Rightarrow> string \<Rightarrow> fsnode list \<Rightarrow> fsnode list option" where
  "write_entry w creatable name content [] =
     (if creatable then Some [File name (create_mode w) content] else None)"
| "write_entry w creatable name content (File n m c # rest) =
     (if n = name then (if writable w m then Some (File n m content # rest) else None)
      else map_option ((#) (File n m c)) (write_entry w creatable name content rest))"
| "write_entry w creatable name content (Dir n cs # rest) =
     (if n = name then None
      else map_option ((#) (Dir n cs)) (write_entry w creatable name content rest))"

definition put_file ::
  "world \<Rightarrow> bool \<Rightarrow> string \<Rightarrow> string \<Rightarrow> fsnode list \<Rightarrow> fsnode list option" where
  "put_file w creatable name content cs =
     (if name = [] \<or> name = ''.'' \<or> name = ''..'' then None
      else write_entry w creatable name content cs)"

section \<open>\<^verbatim>\<open>download_gzdoom\<close>\<close>

definition ENGINES :: "string list" where
  "ENGINES = [''gzdoom'', ''chocolate-doom'', ''prboom'', ''zdoom'']"

definition GZDOOM_API_LATEST :: string where
  "GZDOOM_API_LATEST = ''https://api.github.com/repos/gzdoom/gzdoom/releases/latest''"

text \<open>Line 59: the directory the engine is downloaded into.\<close>

definition dest_dir :: "world \<Rightarrow> string" where
  "dest_dir w = path_join (path_join (script_dir w) ''engines'') ''gzdoom''"

text \<open>Lines 82, 84 and 86: the test on an asset's lowercased name.\<close>

definition name_matches :: "string \<Rightarrow> string \<Rightarrow> bool" where
  "name_matches sys name =
     (if sys = ''Windows'' \<and> contains ''windows'' name \<and> endswith name ''.zip'' then True
      else if sys = ''Darwin'' \<and> (contains ''macos'' name \<or> contains ''osx'' name) then True
      else if sys = ''Linux'' \<and> (contains ''linux'' name \<and> endswith name ''.tar.gz'') then True
      else False)"

text \<open>
  Lines 80--89: the loop over the assets. \<open>asset_url\<close> is the variable as the loop
  finds it; the loop leaves as soon as it is truthy.
\<close>

fun select_asset :: "world \<Rightarrow> json \<Rightarrow> json list \<Rightarrow> exn + json" where
  "select_asset w asset_url [] = Inr asset_url"
| "select_asset w asset_url (asset # rest) =
     (case py_get asset ''name'' (JStr []) of
        Inl e \<Rightarrow> Inl e
      | Inr nm \<Rightarrow>
          (case py_lower w nm of
             Inl e \<Rightarrow> Inl e
           | Inr name \<Rightarrow>
               (case (if name_matches (system w) name
                      then py_item asset ''browser_download_url''
                      else Inr asset_url) of
                  Inl e \<Rightarrow> Inl e
                | Inr url \<Rightarrow> if truthy url then Inr url else select_asset w url rest)))"

text \<open>Lines 92--98: the fallback release.\<close>

definition fallback_url :: "string \<Rightarrow> string" where
  "fallback_url sys =
     (if sys = ''Windows'' then
        ''https://github.com/ZDoom/gzdoom/releases/download/g4.14.1/gzdoom-4-14-1-windows.zip''
      else if sys = ''Darwin'' then
        ''https://github.com/ZDoom/gzdoom/releases/download/g4.14.1/gzdoom-4-14-1-macos.zip''
      else
        ''https://github.com/ZDoom/gzdoom/releases/download/g4.14.1/gzdoom_4.14.1_amd64.deb'')"

text \<open>Lines 80--89: the scan of the assets that \<open>data\<close> lists.\<close>

definition scan_assets :: "world \<Rightarrow> json \<Rightarrow> exn + json" where
  "scan_assets w data =
     (case py_get data ''assets'' (JArr []) of
        Inl e \<Rightarrow> Inl e
      | Inr assets \<Rightarrow>
          (case py_iter assets of
             Inl e \<Rightarrow> Inl e
           | Inr xs \<Rightarrow> select_asset w JNull xs))"

text \<open>Lines 77--98: \<open>asset_url\<close> from \<open>data\<close>, which is \<open>JNull\<close> after a 404.\<close>

definition choose_asset_url :: "world \<Rightarrow> json \<Rightarrow> exn + json" where
  "choose_asset_url w data =
     (if truthy data then scan_assets w data
      else Inr (JStr (fallback_url (system w))))"

text \<open>
  Lines 114--131: extraction. \<open>Some\<close> is the directory the function goes on with;
  \<open>None\<close> means it has returned \<^verbatim>\<open>None\<close>.
\<close>

definition extract_archive ::
  "world \<Rightarrow> string \<Rightarrow> string \<Rightarrow> fsnode list \<Rightarrow> fsnode list option \<times> event list" where
  "extract_archive w archive_path content tree =
     (if endswith archive_path ''.zip'' then
        (case unzip w content tree of
           Some t \<Rightarrow> (Some t, [ExtractZip archive_path (dest_dir w)])
         | None \<Rightarrow>
             (None, [ExtractZip archive_path (dest_dir w),
                     ShowError ''Extraction Failed'' ''Could not extract GZDoom: {e}'']))
      else if endswith archive_path ''.tar.gz'' then
        (case untar w content tree of
           Some t \<Rightarrow> (Some t, [ExtractTar archive_path (dest_dir w)])
         | None \<Rightarrow>
             (None, [ExtractTar archive_path (dest_dir w),
                     ShowError ''Extraction Failed'' ''Could not extract GZDoom: {e}'']))
      else if endswith archive_path ''.dmg'' then
        (None, [ShowInfo ''Manual Step Required''
                  ''Please mount {archive_path} and copy GZDoom.app to {dest_dir}.''])
      else (Some tree, []))"

text \<open>Line 138: the test on a file name.\<close>

definition is_exe_name :: "world \<Rightarrow> string \<Rightarrow> bool" where
  "is_exe_name w file =
     (let low = lower w file in
      contains ''gzdoom'' low \<and> (endswith low ''.exe'' \<or> splitext_ext low = []))"

text \<open>Lines 136--141: the inner loop; the path assigned at its \<^verbatim>\<open>break\<close>, if any.\<close>

fun scan_files ::
  "world \<Rightarrow> string \<Rightarrow> (string \<times> nat \<times> string) list \<Rightarrow> string option" where
  "scan_files w root [] = None"
| "scan_files w root (f # files) =
     (if is_exe_name w (fst f) then Some (path_join root (fst f)) else scan_files w root files)"

text \<open>
  Lines 135--143: the outer loop over the walk, with \<open>exe_path\<close> as the loop finds it.
  \<^verbatim>\<open>os.chmod\<close> stands outside every \<^verbatim>\<open>try\<close>: its failure leaves the function.
\<close>

fun locate_loop :: "world \<Rightarrow> string option \<Rightarrow> walk_entry list \<Rightarrow> string option run" where
  "locate_loop w exe_path [] = (Returned exe_path, [])"
| "locate_loop w exe_path ((root, dirs, files) # rest) =
     (case scan_files w root files of
        None \<Rightarrow>
          if truthy_str exe_path then (Returned exe_path, [])
          else locate_loop w exe_path rest
      | Some p \<Rightarrow>
          if \<not> chmod_ok w p then (Raised OSError, [Chmod p 493])
          else if truthy_str (Some p) then (Returned (Some p), [Chmod p 493])
          else emit [Chmod p 493] (locate_loop w (Some p) rest))"

text \<open>Lines 133--147, over the destination directory as the file system lists it.\<close>

definition locate_executable :: "world \<Rightarrow> fsnode list \<Rightarrow> string option run" where
  "locate_executable w tree =
     (case locate_loop w None (walk (dest_dir w) (listed w (dest_dir w) tree)) of
        (Returned exe_path, evs) \<Rightarrow>
          if \<not> truthy_str exe_path then
            (Returned exe_path,
             evs @ [ShowError ''Error'' ''GZDoom executable not found after extraction.''])
          else (Returned exe_path, evs)
      | (Raised e, evs) \<Rightarrow> (Raised e, evs))"

text \<open>
  Lines 104--147, for an \<open>asset_url\<close> that is a string. The downloaded body lands in
  the destination directory under the URL's base name.
\<close>

definition install_from :: "world \<Rightarrow> string \<Rightarrow> string option run" where
  "install_from w asset_url =
     (let archive_path = path_join (dest_dir w) (basename asset_url) in
      emit [UrlRetrieve asset_url archive_path]
        (case retrieve w asset_url of
           RetrieveHTTPError \<Rightarrow>
             (Returned None, [ShowError ''Download Failed'' ''HTTP Error {e.code}: {e.reason}''])
         | RetrieveError \<Rightarrow>
             (Returned None, [ShowError ''Download Failed'' ''Error downloading archive: {e}''])
         | Retrieved content \<Rightarrow>
             (case put_file w (can_create_in w (dest_dir w)) (basename asset_url) content
                     (dest_tree w) of
                None \<Rightarrow>
                  (Returned None,
                   [ShowError ''Download Failed'' ''Error downloading archive: {e}''])
              | Some tree \<Rightarrow>
                  (case extract_archive w archive_path content tree of
                     (None, evs) \<Rightarrow> (Returned None, evs)
                   | (Some tree', evs) \<Rightarrow> emit evs (locate_executable w tree')))))"

text \<open>
  Lines 100--147, from the \<open>asset_url\<close> chosen (or the exception raised on the way to
  it). \<^verbatim>\<open>os.path.basename\<close> raises on a value that is not a string.
\<close>

definition proceed_with :: "world \<Rightarrow> exn + json \<Rightarrow> string option run" where
  "proceed_with w chosen =
     (case chosen of
        Inl e \<Rightarrow> (Raised e, [])
      | Inr asset_url \<Rightarrow>
          if \<not> truthy asset_url then
            (Returned None,
             [ShowError ''Download Failed'' ''No suitable GZDoom build found for your platform.''])
          else
            (case asset_url of
               JStr u \<Rightarrow> install_from w u
             | _ \<Rightarrow> (Raised TypeError, [])))"

text \<open>Lines 77--147, from the \<open>data\<close> the query left.\<close>

definition download_with :: "world \<Rightarrow> json \<Rightarrow> string option run" where
  "download_with w data = proceed_with w (choose_asset_url w data)"

text \<open>The whole function. \<^verbatim>\<open>os.makedirs\<close> stands outside every \<^verbatim>\<open>try\<close>.\<close>

definition download_gzdoom :: "world \<Rightarrow> config \<Rightarrow> string option run" where
  "download_gzdoom w config =
     (if \<not> makedirs_ok w then (Raised OSError, [Makedirs (dest_dir w)])
      else
        emit [Makedirs (dest_dir w), UrlOpen GZDOOM_API_LATEST]
          (case fetch w of
             FetchHTTPError code \<Rightarrow>
               if code \<noteq> 404 then
                 (Returned None,
                  [ShowError ''Download Failed'' ''Could not fetch GZDoom releases: HTTP {e.code}''])
               else download_with w JNull
           | FetchError \<Rightarrow>
               (Returned None,
                [ShowError ''Download Failed'' ''Could not fetch GZDoom releases: {e}''])
           | Fetched data \<Rightarrow> download_with w data))"

section \<open>\<^verbatim>\<open>find_engine\<close>\<close>

text \<open>Lines 151--154: the loop over the engine names.\<close>

fun find_engine_loop :: "world \<Rightarrow> string list \<Rightarrow> string option" where
  "find_engine_loop w [] = None"
| "find_engine_loop w (name # names) =
     (let path = which w name in
      if truthy_str path then path else find_engine_loop w names)"

definition find_engine :: "world \<Rightarrow> string list \<Rightarrow> config option \<Rightarrow> string option run" where
  "find_engine w engine_names config =
     (case find_engine_loop w engine_names of
        Some path \<Rightarrow> (Returned (Some path), [])
      | None \<Rightarrow>
          if askyesno w then
            emit [AskYesNo ''Engine Not Found'' ''No DOOM engine found. Download GZDoom now?'']
              (download_gzdoom w (case config of Some c \<Rightarrow> c | None \<Rightarrow> []))
          else
            (Returned None,
             [AskYesNo ''Engine Not Found'' ''No DOOM engine found. Download GZDoom now?'']))"

section \<open>\<^verbatim>\<open>run_wad\<close>\<close>

text \<open>
  Lines 191--202: the engine is determined. A result that is not truthy means that
  \<^verbatim>\<open>run_wad\<close> has returned without launching.
\<close>

definition determine_engine ::
  "world \<Rightarrow> string option \<Rightarrow> string option \<Rightarrow> config option \<Rightarrow> string option run" where
  "determine_engine w engine_choice custom_engine_path config =
     (if truthy_str custom_engine_path then (Returned custom_engine_path, [])
      else if truthy_str engine_choice \<and> engine_choice \<noteq> Some ''Auto'' then
        (let engine_path = (case engine_choice of Some c \<Rightarrow> which w c | None \<Rightarrow> None) in
         if \<not> truthy_str engine_path then
           (Returned None, [ShowError ''Error'' ''Engine '{engine_choice}' not found on PATH.''])
         else (Returned engine_path, []))
      else find_engine w ENGINES config)"

text \<open>Lines 182--189: the mods, or the first path that is not a file.\<close>

fun check_mods :: "world \<Rightarrow> string list \<Rightarrow> string + string list" where
  "check_mods w [] = Inr []"
| "check_mods w (p # ps) =
     (if isfile w p then
        (case check_mods w ps of Inl q \<Rightarrow> Inl q | Inr mods \<Rightarrow> Inr (p # mods))
      else Inl p)"

text \<open>\<^verbatim>\<open>' '.join(cmd)\<close>\<close>

fun join_words :: "string list \<Rightarrow> string" where
  "join_words [] = []"
| "join_words [x] = x"
| "join_words (x # y # ys) = x @ '' '' @ join_words (y # ys)"

text \<open>
  The function up to the start of the launch thread (line 228). The time stamps of the
  log and the log widget are left out; \<open>status_label\<close> and \<open>launch_btn\<close> say whether
  the widget was passed.
\<close>

definition run_wad ::
  "world \<Rightarrow> string \<Rightarrow> string option \<Rightarrow> string option \<Rightarrow> string list option \<Rightarrow> bool \<Rightarrow> bool
     \<Rightarrow> config option \<Rightarrow> unit run" where
  "run_wad w wad_path engine_choice custom_engine_path mod_paths status_label launch_btn config =
     (if \<not> isfile w wad_path then
        (Returned (), [ShowError ''Error'' ''WAD file '{wad_path}' not found.''])
      else
        (case check_mods w (case mod_paths of Some ps \<Rightarrow> ps | None \<Rightarrow> []) of
           Inl p \<Rightarrow> (Returned (), [ShowError ''Error'' ''Mod file '{p}' not found.''])
         | Inr mods \<Rightarrow>
             (case determine_engine w engine_choice custom_engine_path config of
                (Raised e, evs) \<Rightarrow> (Raised e, evs)
              | (Returned engine_path, evs) \<Rightarrow>
                  (case engine_path of
                     None \<Rightarrow> (Returned (), evs)
                   | Some ep \<Rightarrow>
                       if ep = [] then (Returned (), evs)
                       else
                         (let cmd = [ep, ''-iwad'', wad_path]
                                      @ concat (map (\<lambda>m. [''-file'', m]) mods) in
                          (Returned (),
                           evs @ [LogLine (''Launching: '' @ join_words cmd)]
                             @ (if status_label then [SetStatus ''Launching...''] else [])
                             @ (if launch_btn then [SetLaunchDisabled] else [])
                             @ [Launch cmd]))))))"

section \<open>\<^verbatim>\<open>export_mods\<close>\<close>

text \<open>Lines 281--282: the extension that makes a mod an archive.\<close>

definition is_archive :: "world \<Rightarrow> string \<Rightarrow> bool" where
  "is_archive w p = (let ext = lower w (splitext_ext p) in ext = ''.zip'' \<or> ext = ''.pk3'')"

fun lookup_dir :: "string \<Rightarrow> fsnode list \<Rightarrow> fsnode list option" where
  "lookup_dir name [] = None"
| "lookup_dir name (Dir n cs # rest) = (if n = name then Some cs else lookup_dir name rest)"
| "lookup_dir name (File n m c # rest) = lookup_dir name rest"

fun replace_dir :: "string \<Rightarrow> fsnode list \<Rightarrow> fsnode list \<Rightarrow> fsnode list" where
  "replace_dir name cs' [] = []"
| "replace_dir name cs' (Dir n cs # rest) =
     (if n = name then Dir n cs' # rest else Dir n cs # replace_dir name cs' rest)"
| "replace_dir name cs' (File n m c # rest) = File n m c # replace_dir name cs' rest"

text \<open>\<^verbatim>\<open>os.chmod\<close> on a file of a directory, as \<^verbatim>\<open>shutil.copymode\<close> calls it.\<close>

fun set_mode :: "string \<Rightarrow> nat \<Rightarrow> fsnode list \<Rightarrow> fsnode list" where
  "set_mode name mode [] = []"
| "set_mode name mode (File n m c # rest) =
     (if n = name then File n mode c # rest else File n m c # set_mode name mode rest)"
| "set_mode name mode (Dir n cs # rest) = Dir n cs # set_mode name mode rest"

text \<open>
  \<^verbatim>\<open>shutil.copyfile\<close> and then \<^verbatim>\<open>shutil.copymode\<close> into a directory: the content is
  written under \<open>name\<close>, and the file then takes the mode of the source.
\<close>

definition copy_into ::
  "world \<Rightarrow> bool \<Rightarrow> string \<Rightarrow> nat \<Rightarrow> string \<Rightarrow> fsnode list \<Rightarrow> fsnode list option" where
  "copy_into w creatable name mode content cs =
     map_option (set_mode name mode) (put_file w creatable name content cs)"

text \<open>
  Line 286, \<^verbatim>\<open>shutil.copy(p, os.path.join(tempdir, os.path.basename(p)))\<close>: the source is
  read, and copied under its base name into the staging directory (which the process has
  just made), or into the directory of that name when the destination is one. \<open>None\<close>
  when the copy raises.
\<close>

definition shutil_copy :: "world \<Rightarrow> string \<Rightarrow> fsnode list \<Rightarrow> fsnode list option" where
  "shutil_copy w p tempdir =
     (case read_file w p of
        None \<Rightarrow> None
      | Some (mode, content) \<Rightarrow>
          (case lookup_dir (basename p) tempdir of
             Some cs \<Rightarrow>
               map_option (\<lambda>cs'. replace_dir (basename p) cs' tempdir)
                 (copy_into w (can_create_in w (basename p)) (basename p) mode content cs)
           | None \<Rightarrow> copy_into w True (basename p) mode content tempdir))"

text \<open>Lines 280--286: the mods are staged in order; \<open>None\<close> when a step raises.\<close>

fun stage_mods :: "world \<Rightarrow> string list \<Rightarrow> fsnode list \<Rightarrow> fsnode list option" where
  "stage_mods w [] tempdir = Some tempdir"
| "stage_mods w (p # ps) tempdir =
     (if is_archive w p then
        (case read_file w p of
           None \<Rightarrow> None
         | Some (mode, content) \<Rightarrow>
             (case unzip w content tempdir of
                None \<Rightarrow> None
              | Some t \<Rightarrow> stage_mods w ps t))
      else
        (case shutil_copy w p tempdir of
           None \<Rightarrow> None
         | Some t \<Rightarrow> stage_mods w ps t))"

text \<open>
  Lines 288--291: the files of the walk over the staging directory as the file system
  lists it, each with its mode and content. The walk starts at the empty path, so that a
  file's joined path is its path relative to the staging directory (\<open>arc\<close>).
\<close>

definition zip_sources :: "world \<Rightarrow> fsnode list \<Rightarrow> (string \<times> nat \<times> string) list" where
  "zip_sources w tempdir =
     concat (map (\<lambda>(root, dirs, files). map (\<lambda>f. (path_join root (fst f), snd f)) files)
               (walk [] (listed w [] tempdir)))"

text \<open>
  Line 292, \<^verbatim>\<open>zf.write(full, arc)\<close>, file by file: the staged file is read and becomes
  an entry, and the first one the process may not read ends the loop with an exception.
  The result is the entries written and whether the loop came to its end.
\<close>

fun zip_write ::
  "world \<Rightarrow> (string \<times> nat \<times> string) list \<Rightarrow> (string \<times> string) list \<times> bool" where
  "zip_write w [] = ([], True)"
| "zip_write w ((arc, mode, content) # rest) =
     (if readable w mode then
        (case zip_write w rest of (entries, done) \<Rightarrow> ((arc, content) # entries, done))
      else ([], False))"

text \<open>Lines 46--51.\<close>

definition save_config :: "world \<Rightarrow> config \<Rightarrow> event list" where
  "save_config w config =
     (if save_config_ok w then [SaveConfig config]
      else [ShowWarning ''Config Warning'' ''Could not save config: {e}''])"

text \<open>
  The whole function: the configuration it leaves and its events. \<open>mods\<close> are the
  entries of the list box; the file dialog answers the empty string when cancelled. The
  archive is closed when its \<^verbatim>\<open>with\<close> block is left, also by an exception: it then
  holds the entries written so far.
\<close>

definition export_mods :: "world \<Rightarrow> string list \<Rightarrow> config \<Rightarrow> bool \<Rightarrow> config \<times> event list" where
  "export_mods w mods config status_label =
     (if mods = [] then (config, [ShowInfo ''Info'' ''No mods to export.''])
      else
        (let out_path = asksaveasfilename w in
         if out_path = [] then (config, [AskSaveAs ''Export Combined Mod''])
         else
           (let config' = AList.update ''last_export_dir'' (JStr (dirname out_path)) config in
            (config',
             [AskSaveAs ''Export Combined Mod'']
               @ save_config w config'
               @ (if status_label then [SetStatus ''Exporting mods...''] else [])
               @ (case stage_mods w mods [] of
                    None \<Rightarrow> [ShowError ''Error'' ''Failed to export combined mod: {e}'']
                  | Some tempdir \<Rightarrow>
                      if zip_create_ok w out_path then
                        (case zip_write w (zip_sources w tempdir) of
                           (entries, done) \<Rightarrow>
                             if done then
                               [WriteZip out_path entries,
                                ShowInfo ''Success'' ''Combined mod exported to {out_path}'']
                             else
                               [WriteZip out_path entries,
                                ShowError ''Error'' ''Failed to export combined mod: {e}''])
                      else [ShowError ''Error'' ''Failed to export combined mod: {e}''])
               @ (if status_label then [SetStatus ''Ready''] else [])))))"

section \<open>Notions used in the statements\<close>

text \<open>The URLs handed to \<^verbatim>\<open>urlretrieve\<close>, in order.\<close>

fun urls_retrieved :: "event list \<Rightarrow> string list" where
  "urls_retrieved [] = []"
| "urls_retrieved (UrlRetrieve url path # evs) = url # urls_retrieved evs"
| "urls_retrieved (ev # evs) = urls_retrieved evs"

text \<open>The archives written, in order: the path and the entries (name and content).\<close>

fun zips_written :: "event list \<Rightarrow> (string \<times> (string \<times> string) list) list" where
  "zips_written [] = []"
| "zips_written (WriteZip path entries # evs) = (path, entries) # zips_written evs"
| "zips_written (ev # evs) = zips_written evs"

text \<open>
  A file name has no extension when no dot follows its first character that is not a
  dot: leading dots do not start an extension.
\<close>

definition extensionless :: "string \<Rightarrow> bool" where
  "extensionless n = (CHR ''.'' \<notin> set (dropWhile (\<lambda>c. c = CHR ''.'') (basename n)))"

text \<open>
  The name of an engine executable: lowercased, it contains \<^verbatim>\<open>gzdoom\<close>, and it ends in
  \<^verbatim>\<open>.exe\<close> or has no extension.
\<close>

definition engine_named :: "world \<Rightarrow> string \<Rightarrow> bool" where
  "engine_named w fname =
     (sublist ''gzdoom'' (lower w fname)
      \<and> (suffix ''.exe'' (lower w fname) \<or> extensionless (lower w fname)))"

text \<open>
  The files below a directory in depth-first order, each with the directory it is in:
  the directory's own files come first, in the order they are listed, then what is
  below its first sub-directory, then what is below its second, and so on.
\<close>

fun below :: "string \<Rightarrow> fsnode \<Rightarrow> (string \<times> string) list" where
  "below dir (File n m c) = []"
| "below dir (Dir n es) =
     map (\<lambda>f. (path_join dir n, fst f)) (files_of es) @ concat (map (below (path_join dir n)) es)"

definition depth_first :: "world \<Rightarrow> string \<Rightarrow> fsnode list \<Rightarrow> (string \<times> string) list" where
  "depth_first w dir tree =
     map (\<lambda>f. (dir, fst f)) (files_of (listed w dir tree))
       @ concat (map (below dir) (listed w dir tree))"



text \<open>
  An asset as the release API lists it: an object with a string \<^verbatim>\<open>name\<close> and a
  \<^verbatim>\<open>browser_download_url\<close>.
\<close>

fun is_asset :: "json \<Rightarrow> bool" where
  "is_asset (JObj kvs) =
     (case map_of kvs ''name'' of
        Some (JStr n) \<Rightarrow> map_of kvs ''browser_download_url'' \<noteq> None
      | _ \<Rightarrow> False)"
| "is_asset x = False"

fun asset_name :: "json \<Rightarrow> string" where
  "asset_name (JObj kvs) = (case map_of kvs ''name'' of Some (JStr n) \<Rightarrow> n | _ \<Rightarrow> [])"
| "asset_name x = []"

fun asset_url :: "json \<Rightarrow> json" where
  "asset_url (JObj kvs) =
     (case map_of kvs ''browser_download_url'' of Some u \<Rightarrow> u | None \<Rightarrow> JNull)"
| "asset_url x = JNull"

text \<open>
  A plain add-on: a file that can be read, with its mode and content, whose extension
  is not an archive's and whose base name can name a file.
\<close>

definition plain_file :: "world \<Rightarrow> string \<Rightarrow> nat \<Rightarrow> string \<Rightarrow> bool" where
  "plain_file w p mode content =
     (read_file w p = Some (mode, content) \<and> \<not> is_archive w p
      \<and> basename p \<noteq> [] \<and> basename p \<noteq> ''.'' \<and> basename p \<noteq> ''..'')"

section \<open>Example worlds\<close>

text \<open>
  A Linux machine on which \<^verbatim>\<open>prboom\<close> and \<^verbatim>\<open>zdoom\<close> are installed, the release query
  answers 404, and the add-ons \<^verbatim>\<open>/a/x.wad\<close>, \<^verbatim>\<open>/b/x.wad\<close> and \<^verbatim>\<open>/b/y.wad\<close> exist with
  mode \<^verbatim>\<open>0o644\<close>. The process is not privileged, and directories are listed in the
  order their entries were made.
\<close>

definition demo_world :: world where
  "demo_world =
     \<lparr> which = (\<lambda>n. if n = ''prboom'' then Some ''/usr/games/prboom''
                     else if n = ''zdoom'' then Some ''/usr/bin/zdoom'' else None),
       askyesno = True,
       system = ''Linux'',
       script_dir = ''/opt/launcher'',
       makedirs_ok = True,
       fetch = FetchHTTPError 404,
       retrieve = (\<lambda>u. Retrieved ''downloaded bytes''),
       dest_tree = [],
       unzip = (\<lambda>c t. Some (t @ [Dir ''bin'' [File ''notes.txt'' 420 ''n'',
                                                 File ''GZDoom.exe'' 420 ''x'']])),
       untar = (\<lambda>c t. None),
       chmod_ok = (\<lambda>p. True),
       isfile = (\<lambda>p. p = ''/wads/doom.wad'' \<or> p = ''/opt/gz/gzdoom'' \<or> p = ''/b/y.wad''),
       read_file = (\<lambda>p. if p = ''/a/x.wad'' then Some (420, ''content of A'')
                         else if p = ''/b/x.wad'' then Some (420, ''content of B'')
                         else if p = ''/b/y.wad'' then Some (420, ''content of Y'') else None),
       asksaveasfilename = ''/out/merged.pk3'',
       save_config_ok = True,
       zip_create_ok = (\<lambda>p. True),
       unicode_lower = (\<lambda>s. s),
       scandir_rank = (\<lambda>dir name. 0),
       create_mode = 420,
       privileged = False,
       can_create_in = (\<lambda>dir. True) \<rparr>"

text \<open>The same machine with an engine left in the destination directory by an earlier run.\<close>

definition stale_world :: world where
  "stale_world = demo_world \<lparr> dest_tree := [File ''gzdoom'' 493 ''old engine''] \<rparr>"

text \<open>
  The same machine when the release query succeeds with the body \<^verbatim>\<open>{}\<close>, and when it
  succeeds with a body that has a tag name and no assets.
\<close>

definition empty_body_world :: world where
  "empty_body_world = demo_world \<lparr> fetch := Fetched (JObj []) \<rparr>"

definition no_assets_world :: world where
  "no_assets_world = demo_world \<lparr> fetch := Fetched (JObj [(''tag_name'', JStr ''g4.14.2'')]) \<rparr>"

text \<open>The same machine when the release query fails with HTTP 500, or without a response.\<close>

definition http500_world :: world where
  "http500_world = demo_world \<lparr> fetch := FetchHTTPError 500 \<rparr>"

definition offline_world :: world where
  "offline_world = demo_world \<lparr> fetch := FetchError \<rparr>"

text \<open>
  A Windows machine for which the release lists two Windows builds, the first without a
  download URL, after a source archive.
\<close>

definition source_asset :: json where
  "source_asset =
     JObj [(''name'', JStr ''gzdoom-src.tar.gz''),
           (''browser_download_url'', JStr ''https://example.org/src.tar.gz'')]"

definition pending_asset :: json where
  "pending_asset =
     JObj [(''name'', JStr ''gzdoom-4-14-2-windows.zip''), (''browser_download_url'', JStr [])]"

definition ready_asset :: json where
  "ready_asset =
     JObj [(''name'', JStr ''GZDoom-4-14-1-Windows.zip''),
           (''browser_download_url'', JStr ''https://example.org/gzdoom-4-14-1-windows.zip'')]"

definition windows_world :: world where
  "windows_world =
     demo_world \<lparr> system := ''Windows'',
                  fetch := Fetched (JObj [(''tag_name'', JStr ''g4.14.2''),
                                          (''assets'', JArr [source_asset, pending_asset, ready_asset])]) \<rparr>"


text \<open>The same machine when \<^verbatim>\<open>/a/x.wad\<close> is read-only (mode \<^verbatim>\<open>0o444\<close>).\<close>

definition readonly_world :: world where
  "readonly_world =
     demo_world \<lparr> read_file := (\<lambda>p. if p = ''/a/x.wad'' then Some (292, ''content of A'')
                                     else if p = ''/b/x.wad'' then Some (420, ''content of B'')
                                     else None) \<rparr>"



section \<open>The string tests and the library's notions\<close>

lemma startswith_prefix: "startswith s p \<longleftrightarrow> prefix p s"
  by (induction s p rule: startswith.induct) auto

lemma endswith_suffix: "endswith s suf \<longleftrightarrow> suffix suf s"
  by (simp add: endswith_def startswith_prefix suffix_to_prefix)

lemma contains_sublist: "contains sub s \<longleftrightarrow> sublist sub s"
  by (induction s) (auto simp: sublist_Cons_right startswith_prefix)

text \<open>On an all-ASCII string the letters are folded, whatever the Unicode tables say.\<close>

lemma lower_ascii: "list_all is_ascii s \<Longrightarrow> lower w s = map lower_char s"
  by (simp add: lower_def)


section \<open>Resolution along the preference list\<close>

lemma find_engine_loop_skip:
  "\<forall>n \<in> set pre. \<not> truthy_str (which w n) \<Longrightarrow>
   find_engine_loop w (pre @ rest) = find_engine_loop w rest"
  by (induction pre) (simp_all add: Let_def)

text \<open>
  C1. When an entry of the preference list resolves on the search path and no entry
  before it does, \<open>find_engine\<close> returns that entry's path, whatever the later entries
  resolve to; nothing is asked and nothing is downloaded.
\<close>

theorem find_engine_first_resolvable:
  assumes "engine_names = pre @ name # post"
    and "\<forall>n \<in> set pre. \<not> truthy_str (which w n)"
    and "which w name = Some path"
    and "path \<noteq> []"
  shows "find_engine w engine_names config = (Returned (Some path), [])"
proof -
  have "find_engine_loop w engine_names = find_engine_loop w (name # post)"
    using assms(1,2) by (simp add: find_engine_loop_skip)
  also have "\<dots> = Some path"
    using assms(3,4) by (simp add: Let_def)
  finally show ?thesis
    by (simp add: find_engine_def)
qed

theorem find_engine_first_resolvable_witness:
  "ENGINES = [''gzdoom'', ''chocolate-doom''] @ ''prboom'' # [''zdoom'']
   \<and> \<not> truthy_str (which demo_world ''gzdoom'')
   \<and> \<not> truthy_str (which demo_world ''chocolate-doom'')
   \<and> which demo_world ''prboom'' = Some ''/usr/games/prboom''
   \<and> truthy_str (which demo_world ''zdoom'')
   \<and> find_engine demo_world ENGINES None = (Returned (Some ''/usr/games/prboom''), [])"
  using find_engine_first_resolvable
    [of ENGINES "[''gzdoom'', ''chocolate-doom'']" "''prboom''" "[''zdoom'']" demo_world
        "''/usr/games/prboom''" None]
  by (simp add: ENGINES_def demo_world_def)

text \<open>Every list with an entry that resolves splits at its first such entry.\<close>

lemma first_resolvable_split:
  assumes "\<exists>n \<in> set engine_names. truthy_str (which w n)"
  shows "\<exists>pre name post path.
           engine_names = pre @ name # post
           \<and> (\<forall>n \<in> set pre. \<not> truthy_str (which w n))
           \<and> which w name = Some path \<and> path \<noteq> []"
proof -
  from split_list_first_prop [OF assms] obtain pre name post
    where split: "engine_names = pre @ name # post"
      and hit: "truthy_str (which w name)"
      and before: "\<forall>n \<in> set pre. \<not> truthy_str (which w n)"
    by blast
  from hit obtain path where "which w name = Some path" and "path \<noteq> []"
    by (cases "which w name") auto
  with split before show ?thesis
    by blast
qed

section \<open>The explicit engine path\<close>

text \<open>
  C5. When the custom engine path names an existing file, it is the engine path, also
  when the preference list resolves (to \<open>other\<close>): the list is not searched, nothing is
  asked and nothing is downloaded.
\<close>

theorem explicit_override_wins:
  assumes "isfile w custom"
    and "custom \<noteq> []"
    and "find_engine w ENGINES config = (Returned (Some other), [])"
  shows "determine_engine w engine_choice (Some custom) config = (Returned (Some custom), [])
         \<and> determine_engine (w\<lparr>which := wh\<rparr>) engine_choice (Some custom) config
             = (Returned (Some custom), [])"
  using assms(2) by (simp add: determine_engine_def)

theorem explicit_override_wins_witness:
  "isfile demo_world ''/opt/gz/gzdoom''
   \<and> find_engine demo_world ENGINES None = (Returned (Some ''/usr/games/prboom''), [])
   \<and> determine_engine demo_world None (Some ''/opt/gz/gzdoom'') None
        = (Returned (Some ''/opt/gz/gzdoom''), [])"
  using explicit_override_wins
    [of demo_world "''/opt/gz/gzdoom''" None "''/usr/games/prboom''" None "which demo_world"]
  by (simp add: demo_world_def ENGINES_def find_engine_def Let_def)

text \<open>
  C9. A non-empty custom engine path is the engine path as it stands, in every world:
  whether it names a file is not asked, and neither the search path nor the user is.
\<close>

theorem custom_engine_path_unchecked:
  assumes "custom_engine_path \<noteq> []"
  shows "determine_engine w engine_choice (Some custom_engine_path) config
           = (Returned (Some custom_engine_path), [])"
  using assms by (simp add: determine_engine_def)

theorem custom_engine_path_unchecked_witness:
  "\<not> isfile demo_world ''/no/such/engine''
   \<and> which demo_world ''prboom'' = Some ''/usr/games/prboom''
   \<and> determine_engine demo_world (Some ''Auto'') (Some ''/no/such/engine'') None
        = (Returned (Some ''/no/such/engine''), [])
   \<and> run_wad demo_world ''/wads/doom.wad'' (Some ''Auto'') (Some ''/no/such/engine'') None False False None
        = (Returned (),
           [LogLine ''Launching: /no/such/engine -iwad /wads/doom.wad'',
            Launch [''/no/such/engine'', ''-iwad'', ''/wads/doom.wad'']])"
  using custom_engine_path_unchecked [of "''/no/such/engine''" demo_world "Some ''Auto''" None]
  by (simp add: demo_world_def run_wad_def)

section \<open>Merging add-ons\<close>

lemma path_join_empty: "path_join [] b = b"
  by (simp add: path_join_def)

lemma zip_sources_one: "zip_sources w [File n m c] = [(n, m, c)]"
  by (simp add: zip_sources_def listed_def walk_def path_join_empty)


lemma zips_written_append: "zips_written (xs @ ys) = zips_written xs @ zips_written ys"
  by (induction xs rule: zips_written.induct) simp_all

lemma zips_written_save_config: "zips_written (save_config w c) = []"
  by (simp add: save_config_def)


lemma stage_two_same:
  assumes "plain_file w a ma ca" and "plain_file w b mb cb" and "basename a = basename b"
  shows "stage_mods w [a, b] [] = (if writable w ma then Some [File (basename b) mb cb] else None)"
  using assms by (simp add: plain_file_def shutil_copy_def copy_into_def put_file_def)

text \<open>
  C7. With no add-on in the list, \<open>export_mods\<close> only shows the information dialog
  ``No mods to export.'': no error dialog, no question, the configuration is neither
  changed nor saved, and no archive is written.
\<close>

theorem export_mods_nothing_to_export:
  "export_mods w [] config status_label = (config, [ShowInfo ''Info'' ''No mods to export.''])
   \<and> zips_written (snd (export_mods w [] config status_label)) = []"
  by (simp add: export_mods_def)


lemma demo_world_fields:
  "which demo_world = (\<lambda>n. if n = ''prboom'' then Some ''/usr/games/prboom''
                               else if n = ''zdoom'' then Some ''/usr/bin/zdoom'' else None)"
  "askyesno demo_world = True"
  "system demo_world = ''Linux''"
  "script_dir demo_world = ''/opt/launcher''"
  "makedirs_ok demo_world = True"
  "fetch demo_world = FetchHTTPError 404"
  "retrieve demo_world u = Retrieved ''downloaded bytes''"
  "dest_tree demo_world = []"
  "unzip demo_world c t
     = Some (t @ [Dir ''bin'' [File ''notes.txt'' 420 ''n'', File ''GZDoom.exe'' 420 ''x'']])"
  "untar demo_world c t = None"
  "chmod_ok demo_world p = True"
  "asksaveasfilename demo_world = ''/out/merged.pk3''"
  "save_config_ok demo_world = True"
  "zip_create_ok demo_world p = True"
  "unicode_lower demo_world s = s"
  "scandir_rank demo_world dir name = 0"
  "create_mode demo_world = 420"
  "privileged demo_world = False"
  "can_create_in demo_world dir = True"
  by (simp_all add: demo_world_def)

lemma wad_names:
  "basename ''/a/x.wad'' = ''x.wad''" "basename ''/b/x.wad'' = ''x.wad''"
  "basename ''/b/y.wad'' = ''y.wad''"
  "\<not> is_archive w ''/a/x.wad''" "\<not> is_archive w ''/b/x.wad''" "\<not> is_archive w ''/b/y.wad''"
  by (simp_all add: basename_def is_archive_def splitext_ext_def lower_def is_ascii_def
        lower_char_def Let_def)





text \<open>
  C6, as the code has it. Two plain add-ons with the same base name, an output path
  chosen in the dialog and an archive that can be created there. \<^verbatim>\<open>shutil.copy\<close> gives
  the staged copy the mode of its source, so the second copy can replace the first only
  if the process may write to a file of the first add-on's mode, and the archive can be
  filled only if it may read a file of the second add-on's mode. If both hold, one
  archive is written, at that path, with exactly one entry, under the base name and with
  the content of the second add-on. If the first fails, the second copy raises: the
  error dialog is shown and no archive is written. If only the second fails, the archive
  is left without an entry and the error dialog is shown.
\<close>

theorem export_mods_same_name:
  assumes "plain_file w a ma ca"
    and "plain_file w b mb cb"
    and "basename a = basename b"
    and "asksaveasfilename w = out_path"
    and "out_path \<noteq> []"
    and "zip_create_ok w out_path"
  shows "(writable w ma \<and> readable w mb \<longrightarrow>
            zips_written (snd (export_mods w [a, b] config status_label))
              = [(out_path, [(basename b, cb)])])
       \<and> (\<not> writable w ma \<longrightarrow>
            zips_written (snd (export_mods w [a, b] config status_label)) = []
            \<and> ShowError ''Error'' ''Failed to export combined mod: {e}''
                \<in> set (snd (export_mods w [a, b] config status_label)))
       \<and> (writable w ma \<and> \<not> readable w mb \<longrightarrow>
            zips_written (snd (export_mods w [a, b] config status_label)) = [(out_path, [])]
            \<and> ShowError ''Error'' ''Failed to export combined mod: {e}''
                \<in> set (snd (export_mods w [a, b] config status_label)))"
  using assms(4-6) stage_two_same [OF assms(1-3)]
  by (simp add: export_mods_def Let_def zips_written_append zips_written_save_config
        zip_sources_one)

lemma readonly_world_fields:
  "read_file readonly_world ''/a/x.wad'' = Some (292, ''content of A'')"
  "read_file readonly_world ''/b/x.wad'' = Some (420, ''content of B'')"
  "asksaveasfilename readonly_world = ''/out/merged.pk3''"
  "save_config_ok readonly_world = True"
  "zip_create_ok readonly_world p = True"
  "privileged readonly_world = False"
  by (simp_all add: readonly_world_def demo_world_def)

theorem export_mods_same_name_witness:
  "plain_file demo_world ''/a/x.wad'' 420 ''content of A''
   \<and> plain_file demo_world ''/b/x.wad'' 420 ''content of B''
   \<and> basename ''/a/x.wad'' = basename ''/b/x.wad''
   \<and> zip_create_ok demo_world ''/out/merged.pk3''
   \<and> writable demo_world 420
   \<and> readable demo_world 420
   \<and> zips_written (snd (export_mods demo_world [''/a/x.wad'', ''/b/x.wad''] [] False))
        = [(''/out/merged.pk3'', [(''x.wad'', ''content of B'')])]
   \<and> plain_file readonly_world ''/a/x.wad'' 292 ''content of A''
   \<and> plain_file readonly_world ''/b/x.wad'' 420 ''content of B''
   \<and> \<not> writable readonly_world 292
   \<and> zips_written (snd (export_mods readonly_world [''/a/x.wad'', ''/b/x.wad''] [] False)) = []"
proof -
  have read: "read_file demo_world ''/a/x.wad'' = Some (420, ''content of A'')"
    "read_file demo_world ''/b/x.wad'' = Some (420, ''content of B'')"
    by (simp_all add: demo_world_def)
  have plain: "plain_file demo_world ''/a/x.wad'' 420 ''content of A''"
    "plain_file demo_world ''/b/x.wad'' 420 ''content of B''"
    by (simp_all add: plain_file_def read wad_names)
  have ro: "plain_file readonly_world ''/a/x.wad'' 292 ''content of A''"
    "plain_file readonly_world ''/b/x.wad'' 420 ''content of B''"
    by (simp_all add: plain_file_def readonly_world_fields wad_names)
  have w1: "writable demo_world 420" and w2: "\<not> writable readonly_world 292"
    and r1: "readable demo_world 420"
    by (simp_all add: writable_def readable_def demo_world_fields readonly_world_fields)
  show ?thesis
    using export_mods_same_name [OF plain, of "''/out/merged.pk3''" "[]" False]
      export_mods_same_name [OF ro, of "''/out/merged.pk3''" "[]" False] plain ro w1 w2 r1
    by (simp add: demo_world_fields readonly_world_fields wad_names)
qed

text \<open>
  C6 as stated fails where the first add-on is read-only and the process is not
  privileged: nothing is written but the configuration, and the error dialog is shown.
\<close>

theorem readonly_first_file_counterexample:
  "plain_file readonly_world ''/a/x.wad'' 292 ''content of A''
   \<and> plain_file readonly_world ''/b/x.wad'' 420 ''content of B''
   \<and> basename ''/a/x.wad'' = basename ''/b/x.wad''
   \<and> export_mods readonly_world [''/a/x.wad'', ''/b/x.wad''] [] False
        = ([(''last_export_dir'', JStr ''/out'')],
           [AskSaveAs ''Export Combined Mod'',
            SaveConfig [(''last_export_dir'', JStr ''/out'')],
            ShowError ''Error'' ''Failed to export combined mod: {e}''])
   \<and> zips_written (snd (export_mods readonly_world [''/a/x.wad'', ''/b/x.wad''] [] False)) = []"
proof -
  have ro: "plain_file readonly_world ''/a/x.wad'' 292 ''content of A''"
    "plain_file readonly_world ''/b/x.wad'' 420 ''content of B''"
    by (simp_all add: plain_file_def readonly_world_fields wad_names)
  have w2: "\<not> writable readonly_world 292"
    by (simp add: writable_def readonly_world_fields)
  have dir: "dirname ''/out/merged.pk3'' = ''/out''"
    by (simp add: dirname_def)
  have "stage_mods readonly_world [''/a/x.wad'', ''/b/x.wad''] [] = None"
    using stage_two_same [OF ro] w2 by (simp add: wad_names)
  then have "export_mods readonly_world [''/a/x.wad'', ''/b/x.wad''] [] False
        = ([(''last_export_dir'', JStr ''/out'')],
           [AskSaveAs ''Export Combined Mod'',
            SaveConfig [(''last_export_dir'', JStr ''/out'')],
            ShowError ''Error'' ''Failed to export combined mod: {e}''])"
    by (simp add: export_mods_def Let_def readonly_world_fields save_config_def dir)
  with ro show ?thesis
    by (simp add: wad_names)
qed

section \<open>Locating the executable\<close>

lemma find_append_first:
  "List.find P (xs @ ys) = (case List.find P xs of None \<Rightarrow> List.find P ys | Some x \<Rightarrow> Some x)"
  by (induction xs) simp_all

lemma find_Some_holds: "List.find P xs = Some x \<Longrightarrow> P x"
  by (induction xs) (auto split: if_splits)

text \<open>The extension that \<^verbatim>\<open>os.path.splitext\<close> gives is empty exactly for such names.\<close>

lemma dropWhile_dots:
  "dropWhile (\<lambda>c. c = CHR ''.'') (stem @ CHR ''.'' # rest)
     = (if list_all (\<lambda>c. c = CHR ''.'') stem then dropWhile (\<lambda>c. c = CHR ''.'') rest
        else dropWhile (\<lambda>c. c = CHR ''.'') stem @ CHR ''.'' # rest)"
  by (induction stem) auto

lemma takeWhile_until: "x \<notin> set xs \<Longrightarrow> takeWhile (\<lambda>c. c \<noteq> x) (xs @ x # ys) = xs"
  by (induction xs) auto

lemma dropWhile_until: "x \<notin> set xs \<Longrightarrow> dropWhile (\<lambda>c. c \<noteq> x) (xs @ x # ys) = x # ys"
  by (induction xs) auto

lemma splitext_ext_empty: "splitext_ext n = [] \<longleftrightarrow> extensionless n"
proof (cases "CHR ''.'' \<in> set (basename n)")
  case False
  then have "CHR ''.'' \<notin> set (dropWhile (\<lambda>c. c = CHR ''.'') (basename n))"
    by (meson set_dropWhileD)
  with False show ?thesis
    by (simp add: splitext_ext_def extensionless_def)
next
  case True
  then obtain stem rest where split: "basename n = stem @ CHR ''.'' # rest"
    and rest: "CHR ''.'' \<notin> set rest"
    by (meson split_list_last)
  from rest have tw: "takeWhile (\<lambda>c. c \<noteq> CHR ''.'') (rev rest @ CHR ''.'' # rev stem) = rev rest"
    by (simp add: takeWhile_until)
  from rest have dw: "dropWhile (\<lambda>c. c \<noteq> CHR ''.'') (rev rest @ CHR ''.'' # rev stem)
      = CHR ''.'' # rev stem"
    by (simp add: dropWhile_until)
  from rest have dr: "CHR ''.'' \<notin> set (dropWhile (\<lambda>c. c = CHR ''.'') rest)"
    by (meson set_dropWhileD)
  show ?thesis
    using True split tw dw dr
    by (auto simp: splitext_ext_def extensionless_def Let_def dropWhile_dots)
qed

lemma is_exe_name_engine_named: "is_exe_name w fname \<longleftrightarrow> engine_named w fname"
  by (simp add: is_exe_name_def engine_named_def Let_def contains_sublist endswith_suffix
        splitext_ext_empty)

lemma engine_named_nonempty: "engine_named w fname \<Longrightarrow> fname \<noteq> []"
  by (auto simp: engine_named_def lower_def is_ascii_def)

lemma path_join_nonempty: "b \<noteq> [] \<Longrightarrow> path_join a b \<noteq> []"
  by (simp add: path_join_def)


text \<open>The triples of \<^verbatim>\<open>os.walk\<close>, read file by file, give the depth-first order.\<close>

lemma file_entries_names:
  "map (\<lambda>f. (d, fst f)) (file_entries es) = map (\<lambda>f. (d, fst f)) (files_of es)"
  by (induction es rule: file_entries.induct) simp_all

lemma walk_node_below:
  "concat (map (\<lambda>(root, dirs, files). map (\<lambda>f. (root, fst f)) files) (walk_node dir e))
     = below dir e"
proof (induction dir e rule: walk_node.induct)
  case (1 parent n m c)
  show ?case by simp
next
  case (2 parent n cs)
  have "concat (map (\<lambda>(root, dirs, files). map (\<lambda>f. (root, fst f)) files)
           (concat (map (walk_node (path_join parent n)) cs)))
      = concat (map (below (path_join parent n)) cs)"
    using 2 by (induction cs) simp_all
  then show ?case by (simp add: file_entries_names)
qed

lemma walk_depth_first:
  "concat (map (\<lambda>(root, dirs, files). map (\<lambda>f. (root, fst f)) files)
     (walk dir (listed w dir tree))) = depth_first w dir tree"
proof -
  have "concat (map (\<lambda>(root, dirs, files). map (\<lambda>f. (root, fst f)) files)
           (concat (map (walk_node dir) es)))
      = concat (map (below dir) es)" for es
    by (induction es) (simp_all add: walk_node_below)
  then show ?thesis
    by (simp add: walk_def depth_first_def file_entries_names)
qed







lemma scan_files_find:
  "scan_files w root files =
     map_option (\<lambda>f. path_join root (fst f)) (List.find (\<lambda>f. engine_named w (fst f)) files)"
  by (induction files) (simp_all add: is_exe_name_engine_named)

lemma find_in_directory:
  "List.find (\<lambda>(dir, fname). engine_named w fname) (map (\<lambda>f. (r, fst f)) files)
     = map_option (\<lambda>f. (r, fst f)) (List.find (\<lambda>f. engine_named w (fst f)) files)"
  by (induction files) simp_all

text \<open>The two loops stop at the first file of the walk that passes the test.\<close>

lemma locate_loop_first:
  "locate_loop w None ws =
     (case List.find (\<lambda>(dir, fname). engine_named w fname)
             (concat (map (\<lambda>(root, dirs, files). map (\<lambda>f. (root, fst f)) files) ws)) of
        None \<Rightarrow> (Returned None, [])
      | Some (dir, fname) \<Rightarrow>
          if chmod_ok w (path_join dir fname)
          then (Returned (Some (path_join dir fname)), [Chmod (path_join dir fname) 493])
          else (Raised OSError, [Chmod (path_join dir fname) 493]))"
proof (induction ws)
  case Nil
  show ?case by simp
next
  case (Cons e ws)
  obtain root dirs files where e: "e = (root, dirs, files)"
    by (cases e)
  show ?case
  proof (cases "List.find (\<lambda>f. engine_named w (fst f)) files")
    case None
    with Cons e show ?thesis
      by (simp add: find_append_first find_in_directory scan_files_find)
  next
    case (Some f)
    then have "engine_named w (fst f)"
      by (auto dest: find_Some_holds)
    then have "path_join root (fst f) \<noteq> []"
      by (simp add: path_join_nonempty engine_named_nonempty)
    with Some e show ?thesis
      by (simp add: find_append_first find_in_directory scan_files_find)
  qed
qed

lemma locate_executable_first:
  "locate_executable w tree =
     (case List.find (\<lambda>(dir, fname). engine_named w fname) (depth_first w (dest_dir w) tree) of
        None \<Rightarrow>
          (Returned None, [ShowError ''Error'' ''GZDoom executable not found after extraction.''])
      | Some (dir, fname) \<Rightarrow>
          if chmod_ok w (path_join dir fname)
          then (Returned (Some (path_join dir fname)), [Chmod (path_join dir fname) 493])
          else (Raised OSError, [Chmod (path_join dir fname) 493]))"
proof (cases "List.find (\<lambda>(dir, fname). engine_named w fname) (depth_first w (dest_dir w) tree)")
  case None
  then show ?thesis
    by (simp add: locate_executable_def locate_loop_first walk_depth_first)
next
  case (Some hit)
  obtain dir fname where hit: "hit = (dir, fname)"
    by (cases hit)
  from Some hit have "engine_named w fname"
    by (auto dest: find_Some_holds)
  then have "path_join dir fname \<noteq> []"
    by (simp add: path_join_nonempty engine_named_nonempty)
  with Some hit show ?thesis
    by (simp add: locate_executable_def locate_loop_first walk_depth_first)
qed



lemma demo_dest_dir: "dest_dir demo_world = ''/opt/launcher/engines/gzdoom''"
  by (simp add: dest_dir_def demo_world_fields path_join_def endswith_def)







section \<open>An archive of unknown kind\<close>

lemma write_entry_dirnames: "write_entry w creatable name content cs = Some cs' \<Longrightarrow> dirnames cs' = dirnames cs"
  by (induction w creatable name content cs arbitrary: cs' rule: write_entry.induct) (auto split: if_splits)

lemma write_entry_has_file:
  "write_entry w creatable name content cs = Some cs' \<Longrightarrow> (name, content) \<in> set (files_of cs')"
  by (induction w creatable name content cs arbitrary: cs' rule: write_entry.induct)
     (auto split: if_splits)

lemma write_entry_keeps_others:
  "write_entry w creatable name content cs = Some cs' \<Longrightarrow> f \<in> set (files_of cs) \<Longrightarrow> fst f \<noteq> name
   \<Longrightarrow> f \<in> set (files_of cs')"
  by (induction w creatable name content cs arbitrary: cs' rule: write_entry.induct)
     (auto split: if_splits)

lemma write_entry_adds_one:
  "write_entry w creatable name content cs = Some cs' \<Longrightarrow> f \<in> set (files_of cs')
   \<Longrightarrow> f = (name, content) \<or> f \<in> set (files_of cs)"
  by (induction w creatable name content cs arbitrary: cs' rule: write_entry.induct)
     (auto split: if_splits)

lemma write_entry_files:
  assumes "write_entry w creatable name content cs = Some cs'"
  shows "(name, content) \<in> set (files_of cs')
   \<and> {f \<in> set (files_of cs). fst f \<noteq> name} \<subseteq> set (files_of cs')
   \<and> set (files_of cs') \<subseteq> insert (name, content) (set (files_of cs))"
  using write_entry_has_file [OF assms] write_entry_keeps_others [OF assms]
    write_entry_adds_one [OF assms]
  by blast

lemma deb_not_extractable:
  "\<not> endswith (path_join d ''gzdoom_4.14.1_amd64.deb'') ''.zip''"
  "\<not> endswith (path_join d ''gzdoom_4.14.1_amd64.deb'') ''.tar.gz''"
  "\<not> endswith (path_join d ''gzdoom_4.14.1_amd64.deb'') ''.dmg''"
  by (simp_all add: path_join_def endswith_def)

lemma deb_basename:
  "sys \<noteq> ''Windows'' \<Longrightarrow> sys \<noteq> ''Darwin'' \<Longrightarrow> basename (fallback_url sys) = ''gzdoom_4.14.1_amd64.deb''"
  by (simp add: fallback_url_def basename_def)

text \<open>
  C10, as the code has it. When the path of the downloaded archive ends in none of
  \<^verbatim>\<open>.zip\<close>, \<^verbatim>\<open>.tar.gz\<close> and \<^verbatim>\<open>.dmg\<close>, as the path for the Linux fallback URL
  (a \<^verbatim>\<open>.deb\<close>) does in every world, the extraction step does nothing: no event, no
  dialog, the tree unchanged. The search for the executable then runs over the
  destination directory as the download left it: the sub-directories and the files it
  had before (but for a file of the archive's name) and the archive; only the archive
  when the directory was empty before.
\<close>

theorem unknown_archive_kind_not_extracted:
  assumes "retrieve w url = Retrieved content"
    and "put_file w (can_create_in w (dest_dir w)) (basename url) content (dest_tree w)
           = Some tree"
    and "\<not> endswith (path_join (dest_dir w) (basename url)) ''.zip''"
    and "\<not> endswith (path_join (dest_dir w) (basename url)) ''.tar.gz''"
    and "\<not> endswith (path_join (dest_dir w) (basename url)) ''.dmg''"
  shows "extract_archive w (path_join (dest_dir w) (basename url)) content tree = (Some tree, [])
       \<and> install_from w url
           = emit [UrlRetrieve url (path_join (dest_dir w) (basename url))]
               (locate_executable w tree)
       \<and> dirnames tree = dirnames (dest_tree w)
       \<and> (basename url, content) \<in> set (files_of tree)
       \<and> {f \<in> set (files_of (dest_tree w)). fst f \<noteq> basename url} \<subseteq> set (files_of tree)
       \<and> set (files_of tree) \<subseteq> insert (basename url, content) (set (files_of (dest_tree w)))
       \<and> (dest_tree w = [] \<longrightarrow> tree = [File (basename url) (create_mode w) content])
       \<and> basename (fallback_url ''Linux'') = ''gzdoom_4.14.1_amd64.deb''
       \<and> \<not> endswith (path_join (dest_dir w) (basename (fallback_url ''Linux''))) ''.zip''
       \<and> \<not> endswith (path_join (dest_dir w) (basename (fallback_url ''Linux''))) ''.tar.gz''
       \<and> \<not> endswith (path_join (dest_dir w) (basename (fallback_url ''Linux''))) ''.dmg''"
proof -
  have skip: "extract_archive w (path_join (dest_dir w) (basename url)) content tree = (Some tree, [])"
    using assms(3-5) by (simp add: extract_archive_def)
  have inst: "install_from w url
           = emit [UrlRetrieve url (path_join (dest_dir w) (basename url))]
               (locate_executable w tree)"
    using assms(1,2) skip by (simp add: install_from_def Let_def emit_def)
  from assms(2) have pe: "write_entry w (can_create_in w (dest_dir w)) (basename url) content
      (dest_tree w) = Some tree"
    by (simp add: put_file_def split: if_splits)
  have deb: "basename (fallback_url ''Linux'') = ''gzdoom_4.14.1_amd64.deb''"
    by (simp add: deb_basename)
  show ?thesis
    using skip inst pe write_entry_dirnames [OF pe] write_entry_files [OF pe] deb
    by (auto simp: deb_not_extractable split: if_splits)
qed


lemma stale_world_fields:
  "system stale_world = ''Linux''"
  "script_dir stale_world = ''/opt/launcher''"
  "makedirs_ok stale_world = True"
  "fetch stale_world = FetchHTTPError 404"
  "retrieve stale_world u = Retrieved ''downloaded bytes''"
  "dest_tree stale_world = [File ''gzdoom'' 493 ''old engine'']"
  "chmod_ok stale_world p = True"
  "can_create_in stale_world dir = True"
  "create_mode stale_world = 420"
  "unicode_lower stale_world s = s"
  "scandir_rank stale_world dir name = 0"
  by (simp_all add: stale_world_def demo_world_def)

lemma stale_dest_dir: "dest_dir stale_world = ''/opt/launcher/engines/gzdoom''"
  by (simp add: dest_dir_def stale_world_fields path_join_def endswith_def)

lemma deb_url_basename:
  "basename ''https://github.com/ZDoom/gzdoom/releases/download/g4.14.1/gzdoom_4.14.1_amd64.deb''
     = ''gzdoom_4.14.1_amd64.deb''"
  by (simp add: basename_def)

lemma exe_names:
  "engine_named w ''gzdoom''"
  "\<not> engine_named w ''gzdoom_4.14.1_amd64.deb''"
  unfolding is_exe_name_engine_named [symmetric]
  by (simp_all add: is_exe_name_def lower_def is_ascii_def lower_char_def splitext_ext_def
        basename_def endswith_def Let_def)

theorem unknown_archive_kind_not_extracted_witness:
  "retrieve stale_world (fallback_url ''Linux'') = Retrieved ''downloaded bytes''
   \<and> put_file stale_world True ''gzdoom_4.14.1_amd64.deb'' ''downloaded bytes''
        (dest_tree stale_world)
        = Some [File ''gzdoom'' 493 ''old engine'',
                File ''gzdoom_4.14.1_amd64.deb'' 420 ''downloaded bytes'']
   \<and> install_from stale_world (fallback_url ''Linux'')
        = emit [UrlRetrieve (fallback_url ''Linux'')
                  ''/opt/launcher/engines/gzdoom/gzdoom_4.14.1_amd64.deb'']
            (locate_executable stale_world
               [File ''gzdoom'' 493 ''old engine'',
                File ''gzdoom_4.14.1_amd64.deb'' 420 ''downloaded bytes''])"
  using unknown_archive_kind_not_extracted
    [of stale_world "fallback_url ''Linux''" "''downloaded bytes''"
        "[File ''gzdoom'' 493 ''old engine'',
          File ''gzdoom_4.14.1_amd64.deb'' 420 ''downloaded bytes'']"]
  by (simp add: stale_world_fields stale_dest_dir deb_basename deb_not_extractable put_file_def
        path_join_def endswith_def)

text \<open>
  C10 as stated fails where the destination directory is not empty before the download:
  here it holds an engine from an earlier run, the search finds that file and the
  function returns it, while a search over the archive alone finds nothing.
\<close>

theorem stale_engine_found_counterexample:
  "\<not> endswith ''/opt/launcher/engines/gzdoom/gzdoom_4.14.1_amd64.deb'' ''.zip''
   \<and> \<not> endswith ''/opt/launcher/engines/gzdoom/gzdoom_4.14.1_amd64.deb'' ''.tar.gz''
   \<and> \<not> endswith ''/opt/launcher/engines/gzdoom/gzdoom_4.14.1_amd64.deb'' ''.dmg''
   \<and> download_gzdoom stale_world []
        = (Returned (Some ''/opt/launcher/engines/gzdoom/gzdoom''),
           [Makedirs ''/opt/launcher/engines/gzdoom'',
            UrlOpen GZDOOM_API_LATEST,
            UrlRetrieve (fallback_url ''Linux'')
              ''/opt/launcher/engines/gzdoom/gzdoom_4.14.1_amd64.deb'',
            Chmod ''/opt/launcher/engines/gzdoom/gzdoom'' 493])
   \<and> locate_executable stale_world [File ''gzdoom_4.14.1_amd64.deb'' 420 ''downloaded bytes'']
        = (Returned None,
           [ShowError ''Error'' ''GZDoom executable not found after extraction.''])"
proof -
  have suffixes:
    "\<not> endswith ''/opt/launcher/engines/gzdoom/gzdoom_4.14.1_amd64.deb'' ''.zip''"
    "\<not> endswith ''/opt/launcher/engines/gzdoom/gzdoom_4.14.1_amd64.deb'' ''.tar.gz''"
    "\<not> endswith ''/opt/launcher/engines/gzdoom/gzdoom_4.14.1_amd64.deb'' ''.dmg''"
    by (simp_all add: endswith_def)
  have join: "path_join ''/opt/launcher/engines/gzdoom'' ''gzdoom_4.14.1_amd64.deb''
      = ''/opt/launcher/engines/gzdoom/gzdoom_4.14.1_amd64.deb''"
    "path_join ''/opt/launcher/engines/gzdoom'' ''gzdoom'' = ''/opt/launcher/engines/gzdoom/gzdoom''"
    by (simp_all add: path_join_def endswith_def)
  have url: "choose_asset_url stale_world JNull = Inr (JStr (fallback_url ''Linux''))"
    by (simp add: choose_asset_url_def stale_world_fields)
  have nonempty: "fallback_url ''Linux'' \<noteq> []"
    by (simp add: fallback_url_def)
  have stale: "locate_executable stale_world
        [File ''gzdoom'' 493 ''old engine'',
         File ''gzdoom_4.14.1_amd64.deb'' 420 ''downloaded bytes'']
      = (Returned (Some ''/opt/launcher/engines/gzdoom/gzdoom''),
         [Chmod ''/opt/launcher/engines/gzdoom/gzdoom'' 493])"
    by (simp add: locate_executable_first depth_first_def listed_def stale_dest_dir exe_names
          join stale_world_fields)
  have alone: "locate_executable stale_world [File ''gzdoom_4.14.1_amd64.deb'' 420 ''downloaded bytes'']
      = (Returned None, [ShowError ''Error'' ''GZDoom executable not found after extraction.''])"
    by (simp add: locate_executable_first depth_first_def listed_def stale_dest_dir exe_names)
  have inst: "install_from stale_world (fallback_url ''Linux'')
      = (Returned (Some ''/opt/launcher/engines/gzdoom/gzdoom''),
         [UrlRetrieve (fallback_url ''Linux'')
            ''/opt/launcher/engines/gzdoom/gzdoom_4.14.1_amd64.deb'',
          Chmod ''/opt/launcher/engines/gzdoom/gzdoom'' 493])"
    using suffixes stale
    by (simp add: install_from_def Let_def stale_dest_dir deb_basename join stale_world_fields
          put_file_def extract_archive_def emit_def)
  have "download_gzdoom stale_world []
      = (Returned (Some ''/opt/launcher/engines/gzdoom/gzdoom''),
         [Makedirs ''/opt/launcher/engines/gzdoom'',
          UrlOpen GZDOOM_API_LATEST,
          UrlRetrieve (fallback_url ''Linux'')
            ''/opt/launcher/engines/gzdoom/gzdoom_4.14.1_amd64.deb'',
          Chmod ''/opt/launcher/engines/gzdoom/gzdoom'' 493])"
    using url nonempty inst
    by (simp add: download_gzdoom_def download_with_def proceed_with_def stale_world_fields
          stale_dest_dir emit_def)
  with suffixes alone show ?thesis
    by simp
qed

section \<open>The release query\<close>

lemma urls_retrieved_append: "urls_retrieved (xs @ ys) = urls_retrieved xs @ urls_retrieved ys"
  by (induction xs rule: urls_retrieved.induct) simp_all

lemma urls_retrieved_locate: "urls_retrieved (snd (locate_executable w tree)) = []"
  by (simp add: locate_executable_first split: option.splits prod.splits)

lemma urls_retrieved_extract:
  "urls_retrieved (snd (extract_archive w archive_path content tree)) = []"
  by (simp add: extract_archive_def split: option.splits)

lemma urls_retrieved_install: "urls_retrieved (snd (install_from w url)) = [url]"
proof (cases "retrieve w url")
  case (Retrieved content)
  show ?thesis
  proof (cases "put_file w (can_create_in w (dest_dir w)) (basename url) content (dest_tree w)")
    case None
    with Retrieved show ?thesis
      by (simp add: install_from_def Let_def emit_def)
  next
    case (Some tree)
    obtain r evs where ex: "extract_archive w (path_join (dest_dir w) (basename url)) content tree = (r, evs)"
      by (cases "extract_archive w (path_join (dest_dir w) (basename url)) content tree")
    have evs: "urls_retrieved evs = []"
      using urls_retrieved_extract [of w "path_join (dest_dir w) (basename url)" content tree] ex
      by simp
    show ?thesis
      using Retrieved Some ex evs
      by (cases r) (simp_all add: install_from_def Let_def emit_def urls_retrieved_append
          urls_retrieved_locate)
  qed
qed (simp_all add: install_from_def Let_def emit_def)

lemma fallback_url_nonempty: "fallback_url sys \<noteq> []"
  by (simp add: fallback_url_def)

lemma fallback_download:
  assumes "makedirs_ok w"
    and "fetch w = FetchHTTPError 404 \<or> (\<exists>d. fetch w = Fetched d \<and> \<not> truthy d)"
  shows "download_gzdoom w config
           = emit [Makedirs (dest_dir w), UrlOpen GZDOOM_API_LATEST]
               (install_from w (fallback_url (system w)))"
  using assms
  by (auto simp: download_gzdoom_def download_with_def proceed_with_def choose_asset_url_def
        fallback_url_nonempty)

text \<open>
  What the function does after each outcome of the release query, once the destination
  directory is made: after a 404, and after a body that is not truthy, it goes on with
  the fallback URL of the platform, which is the one URL it retrieves; after a truthy
  body it goes on with the URL scanned from the body's assets; after any other HTTP error
  or any other exception it shows ``Download Failed'' and returns \<^verbatim>\<open>None\<close>, and
  retrieves nothing.
\<close>

lemma metadata_query_outcomes:
  assumes "makedirs_ok w"
  shows "(fetch w = FetchHTTPError 404 \<or> (\<exists>d. fetch w = Fetched d \<and> \<not> truthy d) \<longrightarrow>
            download_gzdoom w config
              = emit [Makedirs (dest_dir w), UrlOpen GZDOOM_API_LATEST]
                  (install_from w (fallback_url (system w)))
            \<and> urls_retrieved (snd (download_gzdoom w config)) = [fallback_url (system w)])
       \<and> (\<forall>d. fetch w = Fetched d \<and> truthy d \<longrightarrow>
            download_gzdoom w config
              = emit [Makedirs (dest_dir w), UrlOpen GZDOOM_API_LATEST]
                  (proceed_with w (scan_assets w d)))
       \<and> (\<forall>code. fetch w = FetchHTTPError code \<and> code \<noteq> 404 \<longrightarrow>
            download_gzdoom w config
              = (Returned None,
                 [Makedirs (dest_dir w), UrlOpen GZDOOM_API_LATEST,
                  ShowError ''Download Failed'' ''Could not fetch GZDoom releases: HTTP {e.code}''])
            \<and> urls_retrieved (snd (download_gzdoom w config)) = [])
       \<and> (fetch w = FetchError \<longrightarrow>
            download_gzdoom w config
              = (Returned None,
                 [Makedirs (dest_dir w), UrlOpen GZDOOM_API_LATEST,
                  ShowError ''Download Failed'' ''Could not fetch GZDoom releases: {e}''])
            \<and> urls_retrieved (snd (download_gzdoom w config)) = [])"
proof -
  have fallback: "download_gzdoom w config
        = emit [Makedirs (dest_dir w), UrlOpen GZDOOM_API_LATEST]
            (install_from w (fallback_url (system w)))
      \<and> urls_retrieved (snd (download_gzdoom w config)) = [fallback_url (system w)]"
    if "fetch w = FetchHTTPError 404 \<or> (\<exists>d. fetch w = Fetched d \<and> \<not> truthy d)"
    using fallback_download [OF assms that]
    by (simp add: emit_def urls_retrieved_install)
  have scanned: "download_gzdoom w config
        = emit [Makedirs (dest_dir w), UrlOpen GZDOOM_API_LATEST]
            (proceed_with w (scan_assets w d))"
    if "fetch w = Fetched d \<and> truthy d" for d
    using assms that
    by (simp add: download_gzdoom_def download_with_def choose_asset_url_def)
  have other: "download_gzdoom w config
        = (Returned None,
           [Makedirs (dest_dir w), UrlOpen GZDOOM_API_LATEST,
            ShowError ''Download Failed'' ''Could not fetch GZDoom releases: HTTP {e.code}''])
      \<and> urls_retrieved (snd (download_gzdoom w config)) = []"
    if "fetch w = FetchHTTPError code \<and> code \<noteq> 404" for code
    using assms that
    by (simp add: download_gzdoom_def emit_def)
  have failed: "download_gzdoom w config
        = (Returned None,
           [Makedirs (dest_dir w), UrlOpen GZDOOM_API_LATEST,
            ShowError ''Download Failed'' ''Could not fetch GZDoom releases: {e}''])
      \<and> urls_retrieved (snd (download_gzdoom w config)) = []"
    if "fetch w = FetchError"
    using assms that
    by (simp add: download_gzdoom_def emit_def)
  from fallback scanned other failed show ?thesis
    by blast
qed


lemma example_assets:
  "is_asset source_asset" "asset_name source_asset = ''gzdoom-src.tar.gz''"
  "is_asset pending_asset" "asset_name pending_asset = ''gzdoom-4-14-2-windows.zip''"
  "asset_url pending_asset = JStr []"
  "is_asset ready_asset" "asset_name ready_asset = ''GZDoom-4-14-1-Windows.zip''"
  "asset_url ready_asset = JStr ''https://example.org/gzdoom-4-14-1-windows.zip''"
  by (simp_all add: source_asset_def pending_asset_def ready_asset_def)

lemma example_names:
  "\<not> name_matches ''Windows'' (lower w ''gzdoom-src.tar.gz'')"
  "name_matches ''Windows'' (lower w ''gzdoom-4-14-2-windows.zip'')"
  "name_matches ''Windows'' (lower w ''GZDoom-4-14-1-Windows.zip'')"
  by (simp_all add: name_matches_def lower_def is_ascii_def lower_char_def endswith_def)

lemma body_world_fields:
  "makedirs_ok empty_body_world" "fetch empty_body_world = Fetched (JObj [])"
  "system empty_body_world = ''Linux''"
  "retrieve empty_body_world u = Retrieved ''downloaded bytes''"
  "dest_tree empty_body_world = []"
  "can_create_in empty_body_world dir = True"
  "create_mode empty_body_world = 420"
  "makedirs_ok no_assets_world"
  "fetch no_assets_world = Fetched (JObj [(''tag_name'', JStr ''g4.14.2'')])"
  "system no_assets_world = ''Linux''"
  by (simp_all add: empty_body_world_def no_assets_world_def demo_world_def)

lemma body_dest_dirs:
  "dest_dir empty_body_world = ''/opt/launcher/engines/gzdoom''"
  "dest_dir no_assets_world = ''/opt/launcher/engines/gzdoom''"
  by (simp_all add: dest_dir_def empty_body_world_def no_assets_world_def demo_world_def
        path_join_def endswith_def)

lemma deb_alone_not_found:
  "locate_executable w [File ''gzdoom_4.14.1_amd64.deb'' m content]
     = (Returned None, [ShowError ''Error'' ''GZDoom executable not found after extraction.''])"
  by (simp add: locate_executable_first depth_first_def listed_def exe_names)

lemma install_deb_into_empty:
  assumes "retrieve w (fallback_url ''Linux'') = Retrieved content"
    and "dest_tree w = []"
    and "can_create_in w (dest_dir w)"
    and "dest_dir w = ''/opt/launcher/engines/gzdoom''"
  shows "install_from w (fallback_url ''Linux'')
     = (Returned None,
        [UrlRetrieve (fallback_url ''Linux'')
           ''/opt/launcher/engines/gzdoom/gzdoom_4.14.1_amd64.deb'',
         ShowError ''Error'' ''GZDoom executable not found after extraction.''])"
proof -
  have suffixes:
    "\<not> endswith ''/opt/launcher/engines/gzdoom/gzdoom_4.14.1_amd64.deb'' ''.zip''"
    "\<not> endswith ''/opt/launcher/engines/gzdoom/gzdoom_4.14.1_amd64.deb'' ''.tar.gz''"
    "\<not> endswith ''/opt/launcher/engines/gzdoom/gzdoom_4.14.1_amd64.deb'' ''.dmg''"
    by (simp_all add: endswith_def)
  have join: "path_join ''/opt/launcher/engines/gzdoom'' ''gzdoom_4.14.1_amd64.deb''
      = ''/opt/launcher/engines/gzdoom/gzdoom_4.14.1_amd64.deb''"
    by (simp add: path_join_def endswith_def)
  show ?thesis
    using assms suffixes
    by (simp add: install_from_def Let_def deb_basename join put_file_def extract_archive_def
          emit_def deb_alone_not_found)
qed

text \<open>
  C2 holds of the failures of the query, as the lemma above says, and the docstring of
  \<^verbatim>\<open>download_gzdoom\<close> and the comment at line 72 tie the fallback to a 404 as the claim
  does. The code departs from both where the query succeeds: line 78 tests the body for
  truth, so the body \<^verbatim>\<open>{}\<close> takes the fallback and the fallback URL is retrieved,
  while a body with a tag name and no assets ends in ``No suitable GZDoom build found
  for your platform.'' with nothing retrieved.
\<close>

theorem empty_body_takes_fallback:
  "fetch empty_body_world = Fetched (JObj [])
   \<and> fetch empty_body_world \<noteq> FetchHTTPError 404
   \<and> download_gzdoom empty_body_world []
        = (Returned None,
           [Makedirs ''/opt/launcher/engines/gzdoom'', UrlOpen GZDOOM_API_LATEST,
            UrlRetrieve (fallback_url ''Linux'')
              ''/opt/launcher/engines/gzdoom/gzdoom_4.14.1_amd64.deb'',
            ShowError ''Error'' ''GZDoom executable not found after extraction.''])
   \<and> urls_retrieved (snd (download_gzdoom empty_body_world [])) = [fallback_url ''Linux'']
   \<and> fetch no_assets_world = Fetched (JObj [(''tag_name'', JStr ''g4.14.2'')])
   \<and> download_gzdoom no_assets_world []
        = (Returned None,
           [Makedirs ''/opt/launcher/engines/gzdoom'', UrlOpen GZDOOM_API_LATEST,
            ShowError ''Download Failed'' ''No suitable GZDoom build found for your platform.''])
   \<and> urls_retrieved (snd (download_gzdoom no_assets_world [])) = []"
proof -
  have inst: "install_from empty_body_world (fallback_url ''Linux'')
     = (Returned None,
        [UrlRetrieve (fallback_url ''Linux'')
           ''/opt/launcher/engines/gzdoom/gzdoom_4.14.1_amd64.deb'',
         ShowError ''Error'' ''GZDoom executable not found after extraction.''])"
    by (rule install_deb_into_empty) (simp_all add: body_world_fields body_dest_dirs)
  have "download_gzdoom empty_body_world []
      = emit [Makedirs (dest_dir empty_body_world), UrlOpen GZDOOM_API_LATEST]
          (install_from empty_body_world (fallback_url (system empty_body_world)))"
    by (rule fallback_download) (simp_all add: body_world_fields)
  with inst have empty: "download_gzdoom empty_body_world []
        = (Returned None,
           [Makedirs ''/opt/launcher/engines/gzdoom'', UrlOpen GZDOOM_API_LATEST,
            UrlRetrieve (fallback_url ''Linux'')
              ''/opt/launcher/engines/gzdoom/gzdoom_4.14.1_amd64.deb'',
            ShowError ''Error'' ''GZDoom executable not found after extraction.''])"
    by (simp add: body_world_fields body_dest_dirs emit_def)
  have none: "download_gzdoom no_assets_world []
        = (Returned None,
           [Makedirs ''/opt/launcher/engines/gzdoom'', UrlOpen GZDOOM_API_LATEST,
            ShowError ''Download Failed'' ''No suitable GZDoom build found for your platform.''])"
    by (simp add: download_gzdoom_def download_with_def choose_asset_url_def scan_assets_def
          proceed_with_def body_world_fields body_dest_dirs emit_def)
  from empty none show ?thesis
    by (simp add: body_world_fields)
qed

section \<open>The choice among the assets\<close>

lemma select_asset_pass:
  assumes "\<forall>b \<in> set pre. is_asset b
             \<and> \<not> (name_matches (system w) (lower w (asset_name b)) \<and> truthy (asset_url b))"
    and "\<not> truthy u0"
  shows "\<exists>u1. \<not> truthy u1 \<and> select_asset w u0 (pre @ rest) = select_asset w u1 rest"
  using assms
proof (induction pre arbitrary: u0)
  case Nil
  then show ?case by auto
next
  case (Cons b pre)
  from Cons.prems(1) have b: "is_asset b"
    and nb: "\<not> (name_matches (system w) (lower w (asset_name b)) \<and> truthy (asset_url b))"
    and rest: "\<forall>b \<in> set pre. is_asset b
                 \<and> \<not> (name_matches (system w) (lower w (asset_name b)) \<and> truthy (asset_url b))"
    by auto
  from b obtain kvs n u where kvs: "b = JObj kvs" "map_of kvs ''name'' = Some (JStr n)"
    "map_of kvs ''browser_download_url'' = Some u"
    by (cases b) (auto split: option.splits json.splits)
  show ?case
  proof (cases "name_matches (system w) (lower w n)")
    case True
    with nb kvs have "\<not> truthy u" by simp
    with True kvs Cons.IH [OF rest, of u] show ?thesis by simp
  next
    case False
    with kvs Cons.prems(2) Cons.IH [OF rest, of u0] show ?thesis by simp
  qed
qed

lemma select_asset_take:
  assumes "is_asset a" and "name_matches (system w) (lower w (asset_name a))"
    and "truthy (asset_url a)"
  shows "select_asset w u (a # post) = Inr (asset_url a)"
proof -
  from assms(1) obtain kvs n v where kvs: "a = JObj kvs" "map_of kvs ''name'' = Some (JStr n)"
    "map_of kvs ''browser_download_url'' = Some v"
    by (cases a) (auto split: option.splits json.splits)
  with assms(2,3) show ?thesis by simp
qed

lemma name_matches_conventions:
  "name_matches ''Windows'' n = (sublist ''windows'' n \<and> suffix ''.zip'' n)"
  "name_matches ''Darwin'' n = (sublist ''macos'' n \<or> sublist ''osx'' n)"
  "name_matches ''Linux'' n = (sublist ''linux'' n \<and> suffix ''.tar.gz'' n)"
  by (simp_all add: name_matches_def contains_sublist endswith_suffix)

text \<open>
  C3, as the code has it. When the release body lists assets (objects with a string name
  and a download URL), the asset chosen is the first, in the order listed, whose
  lowercased name matches the platform's convention and whose download URL is truthy;
  an asset before it whose name matches but whose URL is empty is passed over, and no
  asset after it is looked at. The conventions: on Windows the name contains
  \<^verbatim>\<open>windows\<close> and ends in \<^verbatim>\<open>.zip\<close>; on macOS (\<^verbatim>\<open>Darwin\<close>) it contains \<^verbatim>\<open>macos\<close> or
  \<^verbatim>\<open>osx\<close>; on Linux it contains \<^verbatim>\<open>linux\<close> and ends in \<^verbatim>\<open>.tar.gz\<close>.
\<close>

theorem first_usable_asset_selected:
  assumes "map_of kvs ''assets'' = Some (JArr (pre @ a # post))"
    and "\<forall>b \<in> set pre. is_asset b
           \<and> \<not> (name_matches (system w) (lower w (asset_name b)) \<and> truthy (asset_url b))"
    and "is_asset a"
    and "name_matches (system w) (lower w (asset_name a))"
    and "truthy (asset_url a)"
  shows "choose_asset_url w (JObj kvs) = Inr (asset_url a)
       \<and> (\<forall>u. asset_url a = JStr u \<longrightarrow> download_with w (JObj kvs) = install_from w u)
       \<and> (\<forall>n. name_matches ''Windows'' n = (sublist ''windows'' n \<and> suffix ''.zip'' n))
       \<and> (\<forall>n. name_matches ''Darwin'' n = (sublist ''macos'' n \<or> sublist ''osx'' n))
       \<and> (\<forall>n. name_matches ''Linux'' n = (sublist ''linux'' n \<and> suffix ''.tar.gz'' n))"
proof -
  from assms(1) have kvs: "kvs \<noteq> []" by auto
  obtain u1 where "select_asset w JNull (pre @ a # post) = select_asset w u1 (a # post)"
    using select_asset_pass [OF assms(2), of JNull "a # post"] by auto
  then have sel: "select_asset w JNull (pre @ a # post) = Inr (asset_url a)"
    using select_asset_take [OF assms(3-5)] by simp
  have chosen: "choose_asset_url w (JObj kvs) = Inr (asset_url a)"
    using assms(1) kvs sel by (simp add: choose_asset_url_def scan_assets_def)
  have "download_with w (JObj kvs) = install_from w u" if "asset_url a = JStr u" for u
    using chosen assms(5) that by (simp add: download_with_def proceed_with_def)
  with chosen show ?thesis
    by (simp add: name_matches_conventions)
qed

theorem first_usable_asset_selected_witness:
  "is_asset source_asset
   \<and> \<not> name_matches (system windows_world) (lower windows_world (asset_name source_asset))
   \<and> is_asset pending_asset \<and> \<not> truthy (asset_url pending_asset)
   \<and> is_asset ready_asset
   \<and> name_matches (system windows_world) (lower windows_world (asset_name ready_asset))
   \<and> truthy (asset_url ready_asset)
   \<and> choose_asset_url windows_world
        (JObj [(''tag_name'', JStr ''g4.14.2''),
               (''assets'', JArr [source_asset, pending_asset, ready_asset])])
        = Inr (JStr ''https://example.org/gzdoom-4-14-1-windows.zip'')"
proof -
  have sys: "system windows_world = ''Windows''"
    by (simp add: windows_world_def demo_world_def)
  have "choose_asset_url windows_world
        (JObj [(''tag_name'', JStr ''g4.14.2''),
               (''assets'', JArr [source_asset, pending_asset, ready_asset])])
        = Inr (asset_url ready_asset)"
    using first_usable_asset_selected
      [of "[(''tag_name'', JStr ''g4.14.2''),
            (''assets'', JArr [source_asset, pending_asset, ready_asset])]"
          "[source_asset, pending_asset]" ready_asset "[]" windows_world]
    by (simp add: example_assets example_names sys)
  then show ?thesis
    by (simp add: example_assets example_names sys)
qed

text \<open>
  C3 as stated fails where an asset whose name matches has an empty download URL: the
  second asset here matches the Windows convention, and the third one, which also
  matches, is the one chosen.
\<close>

theorem later_asset_selected_counterexample:
  "system windows_world = ''Windows''
   \<and> name_matches ''Windows'' (lower windows_world (asset_name pending_asset))
   \<and> sublist ''windows'' (asset_name pending_asset)
   \<and> suffix ''.zip'' (asset_name pending_asset)
   \<and> choose_asset_url windows_world
        (JObj [(''assets'', JArr [source_asset, pending_asset, ready_asset])])
        = Inr (asset_url ready_asset)
   \<and> asset_url ready_asset \<noteq> asset_url pending_asset"
proof -
  have sys: "system windows_world = ''Windows''"
    by (simp add: windows_world_def demo_world_def)
  have name: "sublist ''windows'' ''gzdoom-4-14-2-windows.zip''"
    "suffix ''.zip'' ''gzdoom-4-14-2-windows.zip''"
    unfolding contains_sublist [symmetric] endswith_suffix [symmetric]
    by (simp_all add: endswith_def)
  have "choose_asset_url windows_world
        (JObj [(''assets'', JArr [source_asset, pending_asset, ready_asset])])
        = Inr (asset_url ready_asset)"
    by (simp add: example_assets example_names choose_asset_url_def scan_assets_def sys
          source_asset_def pending_asset_def ready_asset_def)
  with sys name show ?thesis
    by (simp add: example_assets example_names)
qed

end
